theory Spec2Isabelle
  imports Main "HOL-Library.Word"
begin

section \<open>Python values, exceptions and dictionaries\<close>

text \<open>
  The configuration parser of \<^verbatim>\<open>rat_config_parser.py\<close> is embedded as pure functions.
  A Python \<^verbatim>\<open>str\<close> is the list of the bytes of its UTF-8 encoding (\<^typ>\<open>string\<close>), so a
  string is ASCII exactly when each of its characters is below 128; \<^verbatim>\<open>bytes\<close> are lists
  of 8-bit words. An exception is a value carrying the text \<^verbatim>\<open>str(e)\<close>; only exceptions
  below \<^verbatim>\<open>Exception\<close> are modelled (a \<^verbatim>\<open>KeyboardInterrupt\<close> is not).
\<close>

type_synonym bytes = "8 word list"

datatype pyval =
    VNone
  | VBool bool
  | VInt int
  | VStr string
  | VBytes bytes
  | VTuple "pyval list"

datatype exn =
    ConfigParserException string
  | IncompatibleDecryptorException string
  | KeyError string
  | TypeError string
  | UnboundLocalError string
  | OtherException string

fun exn_str :: "exn \<Rightarrow> string" where
  "exn_str (ConfigParserException m) = m"
| "exn_str (IncompatibleDecryptorException m) = m"
| "exn_str (KeyError m) = m"
| "exn_str (TypeError m) = m"
| "exn_str (UnboundLocalError m) = m"
| "exn_str (OtherException m) = m"

text \<open>
  A Python \<^verbatim>\<open>dict\<close> keeps insertion order: it is an association list with distinct
  keys. Assigning to a key that is present replaces the value in place, assigning to a new
  key appends at the end; \<^verbatim>\<open>d.update(e)\<close> assigns the items of \<^verbatim>\<open>e\<close> in order.
\<close>

fun dict_set :: "'k \<Rightarrow> 'v \<Rightarrow> ('k \<times> 'v) list \<Rightarrow> ('k \<times> 'v) list" where
  "dict_set k v [] = [(k, v)]"
| "dict_set k v ((k', v') # d) =
     (if k' = k then (k', v) # d else (k', v') # dict_set k v d)"

definition dict_keys :: "('k \<times> 'v) list \<Rightarrow> 'k list" where
  "dict_keys d = map fst d"

definition dict_get :: "('k \<times> 'v) list \<Rightarrow> 'k \<Rightarrow> 'v option" where
  "dict_get d k = map_of d k"

fun dict_update :: "('k \<times> 'v) list \<Rightarrow> ('k \<times> 'v) list \<Rightarrow> ('k \<times> 'v) list" where
  "dict_update d [] = d"
| "dict_update d ((k, v) # e) = dict_update (dict_set k v d) e"

text \<open>\<^verbatim>\<open>str(n)\<close> for an integer, \<^verbatim>\<open>bytes.hex()\<close> and \<^verbatim>\<open>str.isascii()\<close>.\<close>

fun str_nat :: "nat \<Rightarrow> string" where
  "str_nat n =
     (if n < 10 then [''0123456789'' ! n]
      else str_nat (n div 10) @ [''0123456789'' ! (n mod 10)])"

declare str_nat.simps [simp del]

definition str_int :: "int \<Rightarrow> string" where
  "str_int i = (if i < 0 then ''-'' @ str_nat (nat (- i)) else str_nat (nat i))"

definition hex_byte :: "8 word \<Rightarrow> string" where
  "hex_byte b =
     [''0123456789abcdef'' ! (unat b div 16), ''0123456789abcdef'' ! (unat b mod 16)]"

definition hex :: "bytes \<Rightarrow> string" where
  "hex bs = concat (map hex_byte bs)"

definition isascii :: "string \<Rightarrow> bool" where
  "isascii s = list_all (\<lambda>c. (of_char c :: nat) < 128) s"

section \<open>The obfuscation heuristic\<close>

text \<open>
  \<^verbatim>\<open>_is_likely_obfuscated_config\<close> (lines 296-302) scans the keys in iteration order. The
  registry \<^verbatim>\<open>KNOWN_CONFIG_FIELD_NAMES\<close> is imported from a module that is not part of the
  sources at hand, so it is a parameter.
\<close>

fun is_likely_obfuscated_config :: "string list \<Rightarrow> (string \<times> pyval) list \<Rightarrow> bool" where
  "is_likely_obfuscated_config known [] = True"
| "is_likely_obfuscated_config known ((key, v) # config) =
     (if \<not> isascii key then True
      else if key \<in> set known then False
      else is_likely_obfuscated_config known config)"

section \<open>External collaborators\<close>

text \<open>
  The binary payload (\<^verbatim>\<open>DotNetPEPayload\<close>), the item schemas, the decryptors and the
  key normalisation are imported from modules that are not part of the sources at hand:
  they are parameters, and each call that can raise returns an \<^typ>\<open>exn\<close> on the left.
  A method descriptor is an arbitrary type \<open>'m\<close> with its attribute \<^verbatim>\<open>rva\<close>; a decryptor
  instance is an arbitrary type \<open>'d\<close>, and since an instance may change while it decrypts,
  decryption returns the instance next to the decrypted batch.
\<close>

typedecl Rules

record 'm dotnetpe_payload =
  sha256 :: string
  yara_match :: string
  data :: bytes
  field_name_from_rva :: "int \<Rightarrow> exn + string"
  user_string_from_rva :: "pyval \<Rightarrow> exn + pyval"
  byte_array_from_size_and_rva :: "pyval \<Rightarrow> pyval \<Rightarrow> exn + bytes"
  methods_from_name :: "string \<Rightarrow> exn + 'm list"
  method_body_from_method :: "'m \<Rightarrow> exn + bytes"
  method_from_instruction_offset :: "int \<Rightarrow> int \<Rightarrow> exn + 'm"
  rva :: "'m \<Rightarrow> int"

datatype item_class = PlainConfigItem | EncryptedStringConfigItem | ByteArrayConfigItem

record config_item =
  item_type :: item_class
  parse_from :: "bytes \<Rightarrow> exn + (int \<times> pyval) list"

record ('d, 'm) environment =
  isfile :: "string \<Rightarrow> bool"
  DotNetPEPayload :: "string \<Rightarrow> Rules option \<Rightarrow> bytes option \<Rightarrow> exn + 'm dotnetpe_payload"
  SUPPORTED_CONFIG_ITEMS :: "config_item list"
  SUPPORTED_DECRYPTORS :: "nat list"
  new_decryptor :: "nat \<Rightarrow> 'm dotnetpe_payload \<Rightarrow> exn + 'd"
  decrypt_encrypted_strings ::
    "'d \<Rightarrow> (string \<times> pyval) list \<Rightarrow> exn + ((string \<times> pyval) list \<times> 'd)"
  decryptor_key :: "'d \<Rightarrow> bytes option"
  decryptor_salt :: "'d \<Rightarrow> bytes option"
  check_key_n_value :: "string \<Rightarrow> pyval \<Rightarrow> exn + (string \<times> pyval)"
  KNOWN_CONFIG_FIELD_NAMES :: "string list"

text \<open>The mutable attributes of the parser object that the decoding reads and writes.\<close>

record 'd parser_state =
  decryptor :: "'d option"
  incompatible_decryptors :: "nat list"

definition MIN_CONFIG_LEN_FLOOR :: int where
  "MIN_CONFIG_LEN_FLOOR = 5"

definition MIN_CONFIG_LEN_CEILING :: int where
  "MIN_CONFIG_LEN_CEILING = 9"

section \<open>Decoding one candidate region\<close>

text \<open>Lines 120-123: field RVAs are translated to field names, one item schema at a time.\<close>

fun translate_fields ::
  "'m dotnetpe_payload \<Rightarrow> (int \<times> pyval) list \<Rightarrow> (int \<times> string) list \<Rightarrow>
   (string \<times> pyval) list \<Rightarrow> exn + ((int \<times> string) list \<times> (string \<times> pyval) list)" where
  "translate_fields dnpp [] config_fields_map item_data = Inr (config_fields_map, item_data)"
| "translate_fields dnpp ((k, v) # raw_fields) config_fields_map item_data =
     (case field_name_from_rva dnpp k of
        Inl e \<Rightarrow> Inl e
      | Inr field_name \<Rightarrow>
          translate_fields dnpp raw_fields (dict_set k field_name config_fields_map)
            (dict_set field_name v item_data))"

text \<open>Lines 127-128 and 163-167: every value of the batch is replaced in place.\<close>

fun map_values :: "('v \<Rightarrow> exn + 'v) \<Rightarrow> ('k \<times> 'v) list \<Rightarrow> exn + ('k \<times> 'v) list" where
  "map_values f [] = Inr []"
| "map_values f ((k, v) # d) =
     (case f v of
        Inl e \<Rightarrow> Inl e
      | Inr v' \<Rightarrow> (case map_values f d of Inl e \<Rightarrow> Inl e | Inr d' \<Rightarrow> Inr ((k, v') # d')))"

text \<open>
  Lines 164-167. The value of a byte-array item is a \<^verbatim>\<open>(size, rva)\<close> tuple; unpacking
  anything else is taken to raise.
\<close>

definition byte_array_value :: "'m dotnetpe_payload \<Rightarrow> pyval \<Rightarrow> exn + pyval" where
  "byte_array_value dnpp v =
     (case v of
        VTuple [arr_size, arr_rva] \<Rightarrow>
          (case byte_array_from_size_and_rva dnpp arr_size arr_rva of
             Inl e \<Rightarrow> Inl e
           | Inr bs \<Rightarrow> Inr (VStr (hex bs)))
      | _ \<Rightarrow> Inl (TypeError ''cannot unpack''))"

text \<open>
  Lines 131-157, the loop over \<^verbatim>\<open>SUPPORTED_DECRYPTORS\<close>. It ends by \<^verbatim>\<open>break\<close> with the
  decrypted batch, by running out of decryptor classes, or by an exception that no handler
  of the loop catches (a constructor raising anything but
  \<^verbatim>\<open>IncompatibleDecryptorException\<close>).
\<close>

datatype 'a loop_exit = Break 'a | Exhausted | Raised exn

fun is_incompatible_exn :: "exn \<Rightarrow> bool" where
  "is_incompatible_exn (IncompatibleDecryptorException m) = True"
| "is_incompatible_exn _ = False"

fun decryptor_loop ::
  "('d, 'm) environment \<Rightarrow> 'm dotnetpe_payload \<Rightarrow> nat list \<Rightarrow> (string \<times> pyval) list \<Rightarrow>
   'd parser_state \<Rightarrow> (string \<times> pyval) list loop_exit \<times> 'd parser_state" where
  "decryptor_loop env dnpp [] item_data st = (Exhausted, st)"
| "decryptor_loop env dnpp (decryptor_class # rest) item_data st =
     (if decryptor_class \<in> set (incompatible_decryptors st)
      then decryptor_loop env dnpp rest item_data st
      else
        (case (case decryptor st of
                 None \<Rightarrow> new_decryptor env decryptor_class dnpp
               | Some d \<Rightarrow> Inr d) of
           Inl ide \<Rightarrow>
             (if is_incompatible_exn ide
              then decryptor_loop env dnpp rest item_data
                     (st\<lparr>incompatible_decryptors :=
                          incompatible_decryptors st @ [decryptor_class]\<rparr>)
              else (Raised ide, st))
         | Inr d \<Rightarrow>
             (case decrypt_encrypted_strings env d item_data of
                Inl e \<Rightarrow> decryptor_loop env dnpp rest item_data (st\<lparr>decryptor := None\<rparr>)
              | Inr (item_data', d') \<Rightarrow> (Break item_data', st\<lparr>decryptor := Some d'\<rparr>))))"

text \<open>Lines 159-160, after the loop.\<close>

definition check_decryptor_selected ::
  "(string \<times> pyval) list \<Rightarrow> (string \<times> pyval) list loop_exit \<times> 'd parser_state \<Rightarrow>
   (exn + (string \<times> pyval) list) \<times> 'd parser_state" where
  "check_decryptor_selected item_data r =
     (case r of
        (Raised e, st) \<Rightarrow> (Inl e, st)
      | (Break item_data', st) \<Rightarrow>
          (if decryptor st = None
           then (Inl (ConfigParserException ''All decryptors failed''), st)
           else (Inr item_data', st))
      | (Exhausted, st) \<Rightarrow>
          (if decryptor st = None
           then (Inl (ConfigParserException ''All decryptors failed''), st)
           else (Inr item_data, st)))"

text \<open>Lines 125-167: what is done to the batch of one schema, by the type of the item.\<close>

definition post_process ::
  "('d, 'm) environment \<Rightarrow> 'm dotnetpe_payload \<Rightarrow> item_class \<Rightarrow> (string \<times> pyval) list \<Rightarrow>
   'd parser_state \<Rightarrow> (exn + (string \<times> pyval) list) \<times> 'd parser_state" where
  "post_process env dnpp ty item_data st =
     (case ty of
        EncryptedStringConfigItem \<Rightarrow>
          (case map_values (user_string_from_rva dnpp) item_data of
             Inl e \<Rightarrow> (Inl e, st)
           | Inr item_data' \<Rightarrow>
               check_decryptor_selected item_data'
                 (decryptor_loop env dnpp (SUPPORTED_DECRYPTORS env) item_data' st))
      | ByteArrayConfigItem \<Rightarrow>
          (case map_values (byte_array_value dnpp) item_data of
             Inl e \<Rightarrow> (Inl e, st)
           | Inr item_data' \<Rightarrow> (Inr item_data', st))
      | PlainConfigItem \<Rightarrow> (Inr item_data, st))"

text \<open>
  Lines 116-169, the loop over \<^verbatim>\<open>SUPPORTED_CONFIG_ITEMS\<close>. The local \<^verbatim>\<open>item_data\<close> is
  unbound (\<open>None\<close>) until the first schema has been processed, and holds the batch of the
  last processed schema afterwards.
\<close>

fun items_loop ::
  "('d, 'm) environment \<Rightarrow> 'm dotnetpe_payload \<Rightarrow> bytes \<Rightarrow> config_item list \<Rightarrow>
   (string \<times> pyval) list \<Rightarrow> (int \<times> string) list \<Rightarrow> (string \<times> pyval) list option \<Rightarrow>
   'd parser_state \<Rightarrow>
   (exn + ((string \<times> pyval) list \<times> (int \<times> string) list \<times> (string \<times> pyval) list option))
     \<times> 'd parser_state" where
  "items_loop env dnpp encrypted_config [] decoded_config config_fields_map last_item_data st =
     (Inr (decoded_config, config_fields_map, last_item_data), st)"
| "items_loop env dnpp encrypted_config (item # items) decoded_config config_fields_map
       last_item_data st =
     (case parse_from item encrypted_config of
        Inl e \<Rightarrow> (Inl e, st)
      | Inr raw_fields \<Rightarrow>
          (case translate_fields dnpp raw_fields config_fields_map [] of
             Inl e \<Rightarrow> (Inl e, st)
           | Inr (config_fields_map', item_data) \<Rightarrow>
               (if length item_data > 0
                then
                  (case post_process env dnpp (item_type item) item_data st of
                     (Inl e, st') \<Rightarrow> (Inl e, st')
                   | (Inr item_data', st') \<Rightarrow>
                       items_loop env dnpp encrypted_config items
                         (dict_update decoded_config item_data') config_fields_map'
                         (Some item_data') st')
                else
                  items_loop env dnpp encrypted_config items decoded_config
                    config_fields_map' (Some item_data) st)))"

text \<open>Lines 171-174, the minimum threshold with its \<^verbatim>\<open>UrlHost\<close> exception.\<close>

definition check_min_config_len ::
  "(string \<times> pyval) list \<Rightarrow> (string \<times> pyval) list option \<Rightarrow> int \<Rightarrow> exn option" where
  "check_min_config_len decoded_config last_item_data min_config_len =
     (if int (length decoded_config) < min_config_len
      then
        (case last_item_data of
           None \<Rightarrow> Some (UnboundLocalError ''item_data'')
         | Some item_data \<Rightarrow>
             (if ''UrlHost'' \<notin> set (dict_keys item_data)
              then Some (ConfigParserException
                     (''Minimum threshold of config items not met: ''
                        @ str_nat (length decoded_config) @ ''/'' @ str_int min_config_len))
              else None))
      else None)"

text \<open>Lines 178-184, the pass over the sorted field RVAs.\<close>

fun remap_loop ::
  "('d, 'm) environment \<Rightarrow> int list \<Rightarrow> (int \<times> string) list \<Rightarrow> (string \<times> pyval) list \<Rightarrow>
   (string \<times> pyval) list \<Rightarrow> string list \<Rightarrow> exn + ((string \<times> pyval) list \<times> string list)" where
  "remap_loop env [] config_fields_map decoded_config sorted_decoded_config normalized_fields =
     Inr (sorted_decoded_config, normalized_fields)"
| "remap_loop env (k # ks) config_fields_map decoded_config sorted_decoded_config
       normalized_fields =
     (case dict_get config_fields_map k of
        None \<Rightarrow> Inl (KeyError (str_int k))
      | Some key_name \<Rightarrow>
          (case dict_get decoded_config key_name of
             None \<Rightarrow> Inl (KeyError key_name)
           | Some v \<Rightarrow>
               (case check_key_n_value env key_name v of
                  Inl e \<Rightarrow> Inl e
                | Inr (key_normalized, v') \<Rightarrow>
                    remap_loop env ks config_fields_map decoded_config
                      (dict_set key_normalized v' sorted_decoded_config)
                      (if key_normalized \<noteq> key_name then normalized_fields @ [key_name]
                       else normalized_fields))))"

text \<open>Lines 175-194.\<close>

definition remap ::
  "('d, 'm) environment \<Rightarrow> (int \<times> string) list \<Rightarrow> (string \<times> pyval) list \<Rightarrow>
   exn + (string \<times> pyval) list" where
  "remap env config_fields_map decoded_config =
     (case remap_loop env (sort (dict_keys config_fields_map)) config_fields_map
             decoded_config [] [] of
        Inl e \<Rightarrow> Inl e
      | Inr (sorted_decoded_config, normalized_fields) \<Rightarrow>
          Inr (dict_update sorted_decoded_config
                 (filter (\<lambda>(key, v). key \<notin> set (dict_keys sorted_decoded_config)
                                     \<and> key \<notin> set normalized_fields)
                    decoded_config)))"

text \<open>\<^verbatim>\<open>_decrypt_and_decode_config\<close>, lines 110-194.\<close>

definition decrypt_and_decode_config ::
  "('d, 'm) environment \<Rightarrow> 'm dotnetpe_payload \<Rightarrow> bool \<Rightarrow> bytes \<Rightarrow> int \<Rightarrow> 'd parser_state \<Rightarrow>
   (exn + (string \<times> pyval) list) \<times> 'd parser_state" where
  "decrypt_and_decode_config env dnpp remap_config encrypted_config min_config_len st =
     (case items_loop env dnpp encrypted_config (SUPPORTED_CONFIG_ITEMS env) [] [] None st of
        (Inl e, st') \<Rightarrow> (Inl e, st')
      | (Inr (decoded_config, config_fields_map, last_item_data), st') \<Rightarrow>
          (case check_min_config_len decoded_config last_item_data min_config_len of
             Some e \<Rightarrow> (Inl e, st')
           | None \<Rightarrow>
               (if remap_config then (remap env config_fields_map decoded_config, st')
                else (Inr decoded_config, st'))))"

section \<open>Locating the configuration\<close>

text \<open>
  \<^verbatim>\<open>_PATTERN_VERIFY_HASH\<close>, lines 58-60: twenty bytes, of which those at offsets 0, 4, 5,
  9, 10, 14, 15 and 19 are fixed; with \<^verbatim>\<open>DOTALL\<close> a dot matches every byte.
  \<^verbatim>\<open>re.search\<close> returns the leftmost match.
\<close>

definition PATTERN_VERIFY_HASH :: "bytes \<Rightarrow> bool" where
  "PATTERN_VERIFY_HASH bs \<longleftrightarrow>
     20 \<le> length bs \<and> bs ! 0 = 0x7e \<and> bs ! 4 = 0x04 \<and> bs ! 5 = 0x6f \<and> bs ! 9 = 0x0a \<and>
     bs ! 10 = 0x6f \<and> bs ! 14 = 0x0a \<and> bs ! 15 = 0x74 \<and> bs ! 19 = 0x01"

fun search_from :: "nat \<Rightarrow> bytes \<Rightarrow> nat option" where
  "search_from i [] = None"
| "search_from i (b # bs) =
     (if PATTERN_VERIFY_HASH (b # bs) then Some i else search_from (Suc i) bs)"

definition search_verify_hash :: "bytes \<Rightarrow> nat option" where
  "search_verify_hash bs = search_from 0 bs"

text \<open>Lines 283-294, the \<^verbatim>\<open>while True\<close> loop of the VerifyHash() method.\<close>

function verify_hash_loop ::
  "('d, 'm) environment \<Rightarrow> 'm dotnetpe_payload \<Rightarrow> bool \<Rightarrow> bytes \<Rightarrow> int \<Rightarrow> 'd parser_state \<Rightarrow>
   (exn + (string \<times> pyval) list) \<times> 'd parser_state" where
  "verify_hash_loop env dnpp remap_config encrypted_config min_config_len st =
     (case decrypt_and_decode_config env dnpp remap_config encrypted_config min_config_len st of
        (Inr decrypted_config, st') \<Rightarrow> (Inr decrypted_config, st')
      | (Inl e, st') \<Rightarrow>
          (if min_config_len < MIN_CONFIG_LEN_FLOOR then (Inl e, st')
           else verify_hash_loop env dnpp remap_config encrypted_config (min_config_len - 1) st'))"
  by pat_completeness auto
termination
  by (relation "measure (\<lambda>(env, dnpp, remap_config, encrypted_config, min_config_len, st).
        nat (min_config_len - MIN_CONFIG_LEN_FLOOR + 1))") auto

declare verify_hash_loop.simps [simp del]

text \<open>\<^verbatim>\<open>_get_config_verify_hash_method\<close>, lines 271-294.\<close>

definition get_config_verify_hash_method ::
  "('d, 'm) environment \<Rightarrow> 'm dotnetpe_payload \<Rightarrow> bool \<Rightarrow> 'd parser_state \<Rightarrow>
   (exn + (int \<times> (string \<times> pyval) list)) \<times> 'd parser_state" where
  "get_config_verify_hash_method env dnpp remap_config st =
     (case search_verify_hash (data dnpp) of
        None \<Rightarrow> (Inl (ConfigParserException ''Could not identify VerifyHash() marker''), st)
      | Some start \<Rightarrow>
          (case method_from_instruction_offset dnpp (int start) 1 of
             Inl e \<Rightarrow> (Inl e, st)
           | Inr config_method \<Rightarrow>
               (case method_body_from_method dnpp config_method of
                  Inl e \<Rightarrow> (Inl e, st)
                | Inr encrypted_config \<Rightarrow>
                    (case verify_hash_loop env dnpp remap_config encrypted_config
                            MIN_CONFIG_LEN_CEILING st of
                       (Inl e, st') \<Rightarrow> (Inl e, st')
                     | (Inr decrypted_config, st') \<Rightarrow>
                         (Inr (rva dnpp config_method, decrypted_config), st')))))"

text \<open>
  Lines 234-237: the dictionary from the RVA of each \<^verbatim>\<open>.cctor\<close> method to its body, in
  the order of the candidates.
\<close>

fun candidate_cctor_data ::
  "'m dotnetpe_payload \<Rightarrow> 'm list \<Rightarrow> (int \<times> bytes) list \<Rightarrow> exn + (int \<times> bytes) list" where
  "candidate_cctor_data dnpp [] acc = Inr acc"
| "candidate_cctor_data dnpp (m # candidates) acc =
     (case method_body_from_method dnpp m of
        Inl e \<Rightarrow> Inl e
      | Inr body \<Rightarrow> candidate_cctor_data dnpp candidates (dict_set (rva dnpp m) body acc))"

text \<open>
  Lines 244-258, the \<^verbatim>\<open>for\<close> loop over the candidates at one threshold. The pair
  \<^verbatim>\<open>(config_start, decrypted_config)\<close> is \<open>None\<close> as long as both are \<^verbatim>\<open>None\<close>.
\<close>

fun cctor_for_loop ::
  "('d, 'm) environment \<Rightarrow> 'm dotnetpe_payload \<Rightarrow> bool \<Rightarrow> (int \<times> bytes) list \<Rightarrow> int \<Rightarrow>
   (int \<times> (string \<times> pyval) list) option \<Rightarrow> 'd parser_state \<Rightarrow>
   (int \<times> (string \<times> pyval) list) option \<times> 'd parser_state" where
  "cctor_for_loop env dnpp remap_config [] min_config_len found st = (found, st)"
| "cctor_for_loop env dnpp remap_config ((method_rva, method_body) # cands) min_config_len
       found st =
     (case decrypt_and_decode_config env dnpp remap_config method_body min_config_len st of
        (Inr decrypted_config, st') \<Rightarrow> (Some (method_rva, decrypted_config), st')
      | (Inl e, st') \<Rightarrow> cctor_for_loop env dnpp remap_config cands min_config_len found st')"

text \<open>Lines 243-260, the \<^verbatim>\<open>while\<close> loop over the thresholds.\<close>

function cctor_while_loop ::
  "('d, 'm) environment \<Rightarrow> 'm dotnetpe_payload \<Rightarrow> bool \<Rightarrow> (int \<times> bytes) list \<Rightarrow> int \<Rightarrow>
   (int \<times> (string \<times> pyval) list) option \<Rightarrow> 'd parser_state \<Rightarrow>
   (int \<times> (string \<times> pyval) list) option \<times> 'd parser_state" where
  "cctor_while_loop env dnpp remap_config cands min_config_len found st =
     (if found = None \<and> min_config_len \<ge> MIN_CONFIG_LEN_FLOOR
      then
        (case cctor_for_loop env dnpp remap_config cands min_config_len found st of
           (found', st') \<Rightarrow>
             cctor_while_loop env dnpp remap_config cands (min_config_len - 1) found' st')
      else (found, st))"
  by pat_completeness auto
termination
  by (relation "measure (\<lambda>(env, dnpp, remap_config, cands, min_config_len, found, st).
        nat (min_config_len - MIN_CONFIG_LEN_FLOOR + 1))") auto

declare cctor_while_loop.simps [simp del]

text \<open>\<^verbatim>\<open>_get_config_cctor_brute_force\<close>, lines 228-266.\<close>

definition get_config_cctor_brute_force ::
  "('d, 'm) environment \<Rightarrow> 'm dotnetpe_payload \<Rightarrow> bool \<Rightarrow> 'd parser_state \<Rightarrow>
   (exn + (int \<times> (string \<times> pyval) list)) \<times> 'd parser_state" where
  "get_config_cctor_brute_force env dnpp remap_config st =
     (case methods_from_name dnpp ''.cctor'' of
        Inl e \<Rightarrow> (Inl e, st)
      | Inr candidates \<Rightarrow>
          (if length candidates = 0
           then (Inl (ConfigParserException ''No .cctor method could be found''), st)
           else
             (case candidate_cctor_data dnpp candidates [] of
                Inl e \<Rightarrow> (Inl e, st)
              | Inr cands \<Rightarrow>
                  (case cctor_while_loop env dnpp remap_config cands MIN_CONFIG_LEN_CEILING
                          None st of
                     (None, st') \<Rightarrow>
                       (Inl (ConfigParserException
                          ''No valid configuration could be parsed from any .cctor methods''),
                        st')
                   | (Some r, st') \<Rightarrow> (Inr r, st')))))"

text \<open>Lines 217-220: the keys are replaced by their positions, counted from one.\<close>

definition obfuscated_keys :: "(string \<times> pyval) list \<Rightarrow> (string \<times> pyval) list" where
  "obfuscated_keys decrypted_config =
     map (\<lambda>(idx, (k, v)). (''obfuscated_key_'' @ str_nat idx, v))
       (zip [1 ..< Suc (length decrypted_config)] decrypted_config)"

text \<open>\<^verbatim>\<open>_get_config\<close>, lines 198-222.\<close>

definition get_config ::
  "('d, 'm) environment \<Rightarrow> 'm dotnetpe_payload \<Rightarrow> bool \<Rightarrow> bool \<Rightarrow> 'd parser_state \<Rightarrow>
   (exn + (string \<times> pyval) list) \<times> 'd parser_state" where
  "get_config env dnpp remap_config preserve_obfuscated_keys st =
     (case (case get_config_verify_hash_method env dnpp remap_config st of
              (Inr r, st') \<Rightarrow> (Inr r, st')
            | (Inl _, st') \<Rightarrow>
                (case get_config_cctor_brute_force env dnpp remap_config st' of
                   (Inr r, st'') \<Rightarrow> (Inr r, st'')
                 | (Inl e, st'') \<Rightarrow>
                     (Inl (ConfigParserException
                        (''Could not identify config: '' @ exn_str e)), st''))) of
        (Inl e, st') \<Rightarrow> (Inl e, st')
      | (Inr (config_start, decrypted_config), st') \<Rightarrow>
          (if \<not> preserve_obfuscated_keys
              \<and> is_likely_obfuscated_config (KNOWN_CONFIG_FIELD_NAMES env) decrypted_config
           then (Inr (obfuscated_keys decrypted_config), st')
           else (Inr decrypted_config, st')))"

section \<open>The report\<close>

datatype config_value = Config "(string \<times> pyval) list" | ConfigText string

record report =
  file_path :: string
  sha256 :: string
  yara_possible_family :: string
  key :: string
  salt :: string
  config :: config_value

text \<open>
  The body of the \<^verbatim>\<open>try\<close> block of \<^verbatim>\<open>__init__\<close>, lines 81-104. It returns the
  exception that left the block, if any, next to the report and the parser state as they
  were at that moment.
\<close>

definition init_try ::
  "('d, 'm) environment \<Rightarrow> string \<Rightarrow> Rules option \<Rightarrow> bytes option \<Rightarrow> bool \<Rightarrow> bool \<Rightarrow> report \<Rightarrow>
   exn option \<times> report \<times> 'd parser_state" where
  "init_try env path yara_rule bytes_data remap_config preserve_obfuscated_keys rep =
     (if bytes_data = None \<and> \<not> isfile env path
      then (Some (ConfigParserException ''File not found''), rep,
            \<lparr>decryptor = None, incompatible_decryptors = []\<rparr>)
      else
        (case DotNetPEPayload env path yara_rule bytes_data of
           Inl e \<Rightarrow> (Some e, rep, \<lparr>decryptor = None, incompatible_decryptors = []\<rparr>)
         | Inr dnpp \<Rightarrow>
             (let rep1 = rep\<lparr>sha256 := dotnetpe_payload.sha256 dnpp\<rparr>;
                  rep2 = rep1\<lparr>yara_possible_family := yara_match dnpp\<rparr>
              in
                (case get_config env dnpp remap_config preserve_obfuscated_keys
                        \<lparr>decryptor = None, incompatible_decryptors = []\<rparr> of
                   (Inl e, st) \<Rightarrow> (Some e, rep2, st)
                 | (Inr c, st) \<Rightarrow>
                     (let rep3 = rep2\<lparr>config := Config c\<rparr>;
                          rep4 = rep3\<lparr>key :=
                            (case decryptor st of
                               None \<Rightarrow> ''None''
                             | Some d \<Rightarrow>
                                 (case decryptor_key env d of
                                    None \<Rightarrow> ''None''
                                  | Some k \<Rightarrow> hex k))\<rparr>;
                          rep5 = rep4\<lparr>salt :=
                            (case decryptor st of
                               None \<Rightarrow> ''None''
                             | Some d \<Rightarrow>
                                 (case decryptor_salt env d of
                                    None \<Rightarrow> ''None''
                                  | Some s \<Rightarrow> hex s))\<rparr>
                      in (None, rep5, st))))))"

text \<open>Lines 70-77, the report before anything has been computed.\<close>

definition initial_report :: "string \<Rightarrow> report" where
  "initial_report path =
     \<lparr>file_path = path, sha256 = '''', yara_possible_family = '''', key = '''',
      salt = '''', config = Config []\<rparr>"

text \<open>
  \<^verbatim>\<open>RATConfigParser.__init__\<close>, lines 62-106: the parser object after construction, as
  its report and its decryptor state. The handler of line 105 catches every exception
  that leaves the \<^verbatim>\<open>try\<close> block.
\<close>

definition RATConfigParser ::
  "('d, 'm) environment \<Rightarrow> string \<Rightarrow> Rules option \<Rightarrow> bytes option \<Rightarrow> bool \<Rightarrow> bool \<Rightarrow>
   report \<times> 'd parser_state" where
  "RATConfigParser env path yara_rule bytes_data remap_config preserve_obfuscated_keys =
     (case init_try env path yara_rule bytes_data remap_config preserve_obfuscated_keys
             (initial_report path) of
        (None, rep, st) \<Rightarrow> (rep, st)
      | (Some e, rep, st) \<Rightarrow>
          (rep\<lparr>config := ConfigText (''Exception encountered for '' @ path @ '': '' @ exn_str e)\<rparr>,
           st))"

section \<open>Definitions used to state the claims\<close>

text \<open>
  The environment in which the constructor of one decryptor class is replaced, and the
  relation between two parser states that says that the list of incompatible decryptor
  classes has only grown, and only by classes whose constructor raises
  \<^verbatim>\<open>IncompatibleDecryptorException\<close>.
\<close>

definition replace_constructor ::
  "('d, 'm) environment \<Rightarrow> nat \<Rightarrow> ('m dotnetpe_payload \<Rightarrow> exn + 'd) \<Rightarrow> ('d, 'm) environment" where
  "replace_constructor env k c = env\<lparr>new_decryptor := (new_decryptor env)(k := c)\<rparr>"

definition marked_by_construction ::
  "('d, 'm) environment \<Rightarrow> 'm dotnetpe_payload \<Rightarrow> 'd parser_state \<Rightarrow> 'd parser_state \<Rightarrow> bool" where
  "marked_by_construction env dnpp st st' \<longleftrightarrow>
     set (incompatible_decryptors st) \<subseteq> set (incompatible_decryptors st')
     \<and> list_all (\<lambda>k. k \<in> set (incompatible_decryptors st)
                     \<or> (case new_decryptor env k dnpp of Inl e \<Rightarrow> is_incompatible_exn e
                         | Inr d \<Rightarrow> False))
          (incompatible_decryptors st')"

text \<open>
  The order in which the brute force is said to try its candidates: every threshold from
  the ceiling down to the floor, and at each threshold every candidate of the dictionary
  of \<^verbatim>\<open>.cctor\<close> bodies in its order. \<open>first_success\<close> decodes the attempts of such a
  list one after the other, handing the parser state on, and stops at the first attempt
  that decodes.
\<close>

definition brute_force_schedule :: "(int \<times> bytes) list \<Rightarrow> (int \<times> int \<times> bytes) list" where
  "brute_force_schedule cands =
     concat (map (\<lambda>threshold. map (\<lambda>(method_rva, method_body).
                                      (threshold, method_rva, method_body)) cands)
               [9, 8, 7, 6, 5])"

fun first_success ::
  "('d, 'm) environment \<Rightarrow> 'm dotnetpe_payload \<Rightarrow> bool \<Rightarrow> (int \<times> int \<times> bytes) list \<Rightarrow>
   'd parser_state \<Rightarrow> (int \<times> (string \<times> pyval) list) option \<times> 'd parser_state" where
  "first_success env dnpp remap_config [] st = (None, st)"
| "first_success env dnpp remap_config ((threshold, method_rva, method_body) # attempts) st =
     (case decrypt_and_decode_config env dnpp remap_config method_body threshold st of
        (Inr decrypted_config, st') \<Rightarrow> (Some (method_rva, decrypted_config), st')
      | (Inl e, st') \<Rightarrow> first_success env dnpp remap_config attempts st')"

text \<open>The payload, if the constructor got as far as loading one.\<close>

definition loaded_payload ::
  "('d, 'm) environment \<Rightarrow> string \<Rightarrow> Rules option \<Rightarrow> bytes option \<Rightarrow> 'm dotnetpe_payload option"
  where
  "loaded_payload env path yara_rule bytes_data =
     (if bytes_data = None \<and> \<not> isfile env path then None
      else (case DotNetPEPayload env path yara_rule bytes_data of
              Inl e \<Rightarrow> None
            | Inr dnpp \<Rightarrow> Some dnpp))"

text \<open>
  The canonical pass of the normaliser: for each field RVA of the given list, in its
  order, the RVA, the field name, the canonical name and the canonical value. It fails
  where a lookup or the normalisation function fails.
\<close>

fun canonical_entries ::
  "('d, 'm) environment \<Rightarrow> int list \<Rightarrow> (int \<times> string) list \<Rightarrow> (string \<times> pyval) list \<Rightarrow>
   exn + (int \<times> string \<times> string \<times> pyval) list" where
  "canonical_entries env [] config_fields_map decoded_config = Inr []"
| "canonical_entries env (k # ks) config_fields_map decoded_config =
     (case dict_get config_fields_map k of
        None \<Rightarrow> Inl (KeyError (str_int k))
      | Some key_name \<Rightarrow>
          (case dict_get decoded_config key_name of
             None \<Rightarrow> Inl (KeyError key_name)
           | Some v \<Rightarrow>
               (case check_key_n_value env key_name v of
                  Inl e \<Rightarrow> Inl e
                | Inr (key_normalized, v') \<Rightarrow>
                    (case canonical_entries env ks config_fields_map decoded_config of
                       Inl e \<Rightarrow> Inl e
                     | Inr entries \<Rightarrow> Inr ((k, key_name, key_normalized, v') # entries)))))"

definition canonical_items ::
  "(int \<times> string \<times> string \<times> pyval) list \<Rightarrow> (string \<times> pyval) list" where
  "canonical_items entries = map (\<lambda>(k, key_name, key_normalized, v). (key_normalized, v)) entries"

definition renamed_fields :: "(int \<times> string \<times> string \<times> pyval) list \<Rightarrow> string list" where
  "renamed_fields entries =
     map (\<lambda>(k, key_name, key_normalized, v). key_name)
       (filter (\<lambda>(k, key_name, key_normalized, v). key_normalized \<noteq> key_name) entries)"

text \<open>
  No encrypted-string field exists: whatever bytecode the encrypted-string schemas are
  applied to, they find nothing.
\<close>

definition no_encrypted_string_fields :: "('d, 'm) environment \<Rightarrow> bool" where
  "no_encrypted_string_fields env \<longleftrightarrow>
     (\<forall>item body raw. item \<in> set (SUPPORTED_CONFIG_ITEMS env) \<longrightarrow>
        item_type item = EncryptedStringConfigItem \<longrightarrow>
        parse_from item body = Inr raw \<longrightarrow> raw = [])"

section \<open>A concrete environment\<close>

text \<open>
  The theorems are instantiated on a small environment. A method descriptor is its RVA and
  a decryptor instance is a number. Every byte of a method body stands for one field, whose
  RVA is the value of the byte: a byte below 64 is found by the plain schema, a byte from
  64 to 127 by the byte-array schema, and a byte from 128 on by the encrypted-string
  schema. Of the three decryptor classes, class 0 cannot be constructed on any payload,
  class 1 can be constructed but fails on every batch, and class 2 decrypts every batch,
  adds one entry of its own to it, and has derived its key from then on (instance 12).
  The file \<open>sample.bin\<close> has two static constructors and no marker, \<open>corrupt.bin\<close> cannot
  be loaded, and no other file exists; bytes handed over directly are a payload without
  static constructors in which the method after a marker is method 500.
\<close>

definition fx_field_name :: "int \<Rightarrow> string" where
  "fx_field_name k =
     (if k = 1 then ''Ports'' else if k = 2 then ''Hosts'' else if k = 3 then ''Version''
      else if k = 4 then ''Install'' else if k = 5 then ''MTX'' else if k = 6 then ''Delay''
      else if k = 64 then ''ServerSignature'' else if k = 128 then ''Key''
      else if k = 135 then ''UrlHost'' else ''Field'' @ str_int k)"

definition fx_body :: "int \<Rightarrow> bytes" where
  "fx_body m =
     (if m = 100 then [1, 2, 3, 4]
      else if m = 200 then [1, 2, 3]
      else if m = 300 then [1, 2, 3, 4, 5, 6]
      else if m = 400 then [135, 1]
      else if m = 500 then [128, 6, 5, 4, 3, 2, 1]
      else if m = 600 then [128, 1]
      else [])"

definition fx_marker :: bytes where
  "fx_marker =
     [0x00, 0x7e, 0x11, 0x00, 0x00, 0x04, 0x6f, 0x22, 0x00, 0x00, 0x0a, 0x6f, 0x23, 0x00,
      0x00, 0x0a, 0x74, 0x05, 0x00, 0x00, 0x01, 0x2a]"

definition fx_payload :: "bytes \<Rightarrow> int \<Rightarrow> int list \<Rightarrow> int dotnetpe_payload" where
  "fx_payload d next_method cctors =
     \<lparr>dotnetpe_payload.sha256 = ''9f86d081'', yara_match = ''asyncrat'', data = d,
      field_name_from_rva = (\<lambda>k. Inr (fx_field_name k)),
      user_string_from_rva =
        (\<lambda>v. case v of VInt i \<Rightarrow> Inr (VStr (''enc'' @ str_int i))
              | _ \<Rightarrow> Inl (TypeError ''rva'')),
      byte_array_from_size_and_rva = (\<lambda>arr_size arr_rva. Inr [0xde, 0xad]),
      methods_from_name = (\<lambda>n. Inr (if n = ''.cctor'' then cctors else [])),
      method_body_from_method = (\<lambda>m. Inr (fx_body m)),
      method_from_instruction_offset = (\<lambda>off step. Inr next_method),
      rva = (\<lambda>m. m)\<rparr>"

definition fx_items :: "config_item list" where
  "fx_items =
     [\<lparr>item_type = PlainConfigItem,
       parse_from = (\<lambda>body. Inr (map (\<lambda>b. (uint b, VInt (uint b)))
                                   (filter (\<lambda>b. unat b < 64) body)))\<rparr>,
      \<lparr>item_type = ByteArrayConfigItem,
       parse_from = (\<lambda>body. Inr (map (\<lambda>b. (uint b, VTuple [VInt 2, VInt (uint b)]))
                                   (filter (\<lambda>b. 64 \<le> unat b \<and> unat b < 128) body)))\<rparr>,
      \<lparr>item_type = EncryptedStringConfigItem,
       parse_from = (\<lambda>body. Inr (map (\<lambda>b. (uint b, VInt (uint b)))
                                   (filter (\<lambda>b. 128 \<le> unat b) body)))\<rparr>]"

definition fx_env :: "(nat, int) environment" where
  "fx_env =
     \<lparr>isfile = (\<lambda>p. p = ''sample.bin'' \<or> p = ''corrupt.bin''),
      DotNetPEPayload =
        (\<lambda>p yara_rule d.
           if p = ''corrupt.bin'' then Inl (OtherException ''not a PE file'')
           else Inr (fx_payload (case d of Some bs \<Rightarrow> bs | None \<Rightarrow> []) 500
                       (if p = ''sample.bin'' then [200, 300] else []))),
      SUPPORTED_CONFIG_ITEMS = fx_items,
      SUPPORTED_DECRYPTORS = [0, 1, 2],
      new_decryptor =
        (\<lambda>k dnpp. if k = 0 then Inl (IncompatibleDecryptorException ''marker not found'')
                  else Inr k),
      decrypt_encrypted_strings =
        (\<lambda>d item_data.
           if d = 2 \<or> d = 12
           then Inr (dict_set ''derived'' (VStr ''yes'')
                       (map (\<lambda>(k, v). (k, VStr ''plain'')) item_data), 12)
           else Inl (OtherException ''bad padding'')),
      decryptor_key = (\<lambda>d. if d = 12 then Some [0xaa, 0x0b] else None),
      decryptor_salt = (\<lambda>d. None),
      check_key_n_value =
        (\<lambda>k v. if k = ''Ports'' then Inr (''port'', v)
                else if k = ''Hosts'' then Inr (''host'', v)
                else Inr (k, v)),
      KNOWN_CONFIG_FIELD_NAMES = [''Ports'', ''Hosts'', ''port'', ''host'']\<rparr>"

definition st0 :: "nat parser_state" where
  "st0 = \<lparr>decryptor = None, incompatible_decryptors = []\<rparr>"

text \<open>
  A payload without marker whose two static constructors, with the bodies of the methods
  300 and 200, are reported under one and the same RVA.
\<close>

definition fx_payload_shared_rva :: "int dotnetpe_payload" where
  "fx_payload_shared_rva = (fx_payload [] 100 [300, 200])\<lparr>rva := (\<lambda>m. 7)\<rparr>"

text \<open>The same environment with decryptors that report a key of length zero.\<close>

definition fx_env_empty_key :: "(nat, int) environment" where
  "fx_env_empty_key = fx_env\<lparr>decryptor_key := (\<lambda>d. Some [])\<rparr>"

text \<open>The same environment with an encrypted-string schema that never finds a field.\<close>

definition fx_env_plain :: "(nat, int) environment" where
  "fx_env_plain =
     fx_env\<lparr>SUPPORTED_CONFIG_ITEMS :=
       [hd fx_items,
        \<lparr>item_type = EncryptedStringConfigItem, parse_from = (\<lambda>body. Inr [])\<rparr>]\<rparr>"

section \<open>Evaluation on the concrete environment\<close>

lemmas fx_eval =
  fx_env_def fx_payload_def fx_items_def fx_body_def fx_field_name_def fx_marker_def st0_def
  fx_env_empty_key_def fx_env_plain_def fx_payload_shared_rva_def
  get_config_verify_hash_method_def search_verify_hash_def PATTERN_VERIFY_HASH_def
  verify_hash_loop.simps decrypt_and_decode_config_def post_process_def
  check_min_config_len_def check_decryptor_selected_def byte_array_value_def
  MIN_CONFIG_LEN_FLOOR_def MIN_CONFIG_LEN_CEILING_def dict_keys_def dict_get_def
  str_int_def str_nat.simps hex_def hex_byte_def remap_def
  get_config_cctor_brute_force_def cctor_while_loop.simps get_config_def
  obfuscated_keys_def isascii_def init_try_def RATConfigParser_def initial_report_def
  brute_force_schedule_def loaded_payload_def canonical_items_def renamed_fields_def

section \<open>Dictionaries\<close>

lemma dict_set_new: "k \<notin> fst ` set d \<Longrightarrow> dict_set k v d = d @ [(k, v)]"
  by (induction d) auto

lemma dict_set_keys:
  "map fst (dict_set k v d) = (if k \<in> set (map fst d) then map fst d else map fst d @ [k])"
  by (induction d) force+

lemma dict_set_distinct: "distinct (map fst d) \<Longrightarrow> distinct (map fst (dict_set k v d))"
  by (simp add: dict_set_keys)

lemma dict_update_distinct: "distinct (map fst d) \<Longrightarrow> distinct (map fst (dict_update d e))"
  by (induction e arbitrary: d) (auto simp: dict_set_distinct)

lemma dict_update_new:
  "distinct (map fst e) \<Longrightarrow> set (map fst e) \<inter> set (map fst d) = {} \<Longrightarrow>
   dict_update d e = d @ e"
proof (induction e arbitrary: d)
  case Nil
  show ?case by simp
next
  case (Cons p e)
  obtain k v where p: "p = (k, v)" by (cases p)
  have new: "dict_set k v d = d @ [(k, v)]"
    using Cons.prems(2) by (intro dict_set_new) (auto simp: p)
  have "dict_update (d @ [(k, v)]) e = (d @ [(k, v)]) @ e"
    using Cons.prems by (intro Cons.IH) (auto simp: p)
  then show ?case
    by (simp add: p new)
qed

section \<open>The scan of the obfuscation heuristic\<close>

lemma is_likely_obfuscated_config_first_signal:
  "is_likely_obfuscated_config known cfg =
     (case find (\<lambda>k. \<not> isascii k \<or> k \<in> set known) (dict_keys cfg) of
        None \<Rightarrow> True
      | Some k \<Rightarrow> \<not> isascii k)"
  by (induction cfg) (auto simp: dict_keys_def)

text \<open>
  Claim C2, as stated: a mapping with a non-ASCII key is classified as obfuscated whatever
  the other keys are. The scan returns at the first key that gives a signal
  (\<open>is_likely_obfuscated_config_first_signal\<close>), so a known name in front of the
  non-ASCII key decides first. With the registry \<open>[port]\<close>, the mapping whose keys are
  \<open>port\<close> and then the key of the specification's example (U+00E9 followed by \<open>Key\<close>,
  two bytes and three in UTF-8) has a non-ASCII key and is classified as not obfuscated.
\<close>

theorem known_name_before_non_ascii_counterexample:
  "\<not> isascii (CHR 0xC3 # CHR 0xA9 # ''Key'')
   \<and> \<not> is_likely_obfuscated_config [''port'']
         [(''port'', VStr ''1234''), (CHR 0xC3 # CHR 0xA9 # ''Key'', VStr ''a'')]"
  by (simp add: isascii_def)

text \<open>
  Claim C2, amended: a mapping is classified as obfuscated when it has a non-ASCII key
  such that no ASCII key in front of it is a known name; whether that key itself or any
  later key is a known name does not matter.
\<close>

theorem non_ascii_key_obfuscated:
  assumes "\<not> isascii k"
    and "list_all (\<lambda>k'. \<not> isascii k' \<or> k' \<notin> set known) (dict_keys pre)"
  shows "is_likely_obfuscated_config known (pre @ (k, v) # post)"
  using assms by (induction pre) (auto simp: dict_keys_def)

theorem non_ascii_key_obfuscated_witness:
  "\<not> isascii (CHR 0xC3 # CHR 0xA9 # ''Key'')
   \<and> list_all (\<lambda>k'. \<not> isascii k' \<or> k' \<notin> set [''port'', CHR 0xC3 # CHR 0xA9 # ''Key''])
        (dict_keys [(''abc'', VInt 1)])
   \<and> is_likely_obfuscated_config [''port'', CHR 0xC3 # CHR 0xA9 # ''Key'']
        ([(''abc'', VInt 1)] @ (CHR 0xC3 # CHR 0xA9 # ''Key'', VStr ''a'')
           # [(''port'', VStr ''1234'')])"
proof -
  have h1: "\<not> isascii (CHR 0xC3 # CHR 0xA9 # ''Key'')"
    by (simp add: isascii_def)
  have h2: "list_all (\<lambda>k'. \<not> isascii k' \<or> k' \<notin> set [''port'', CHR 0xC3 # CHR 0xA9 # ''Key''])
              (dict_keys [(''abc'', VInt 1)])"
    by (simp add: isascii_def dict_keys_def)
  have c: "is_likely_obfuscated_config [''port'', CHR 0xC3 # CHR 0xA9 # ''Key'']
        ([(''abc'', VInt 1)] @ (CHR 0xC3 # CHR 0xA9 # ''Key'', VStr ''a'')
           # [(''port'', VStr ''1234'')])"
    using h1 h2 by (rule non_ascii_key_obfuscated)
  show ?thesis
    by (intro conjI) (rule h1 h2 c)+
qed

section \<open>The thresholds of the VerifyHash() method\<close>

lemma verify_hash_loop_step:
  "MIN_CONFIG_LEN_FLOOR \<le> n \<Longrightarrow> m = n - 1 \<Longrightarrow>
   verify_hash_loop env dnpp rc body n st =
     (case decrypt_and_decode_config env dnpp rc body n st of
        (Inr cfg, st') \<Rightarrow> (Inr cfg, st')
      | (Inl e, st') \<Rightarrow> verify_hash_loop env dnpp rc body m st')"
  by (subst verify_hash_loop.simps) (auto split: prod.splits sum.splits)

lemma verify_hash_loop_below_floor:
  "n < MIN_CONFIG_LEN_FLOOR \<Longrightarrow>
   verify_hash_loop env dnpp rc body n st = decrypt_and_decode_config env dnpp rc body n st"
  by (subst verify_hash_loop.simps) (auto split: prod.splits sum.splits)

lemma verify_hash_loop_thresholds:
  "(case verify_hash_loop env dnpp rc body MIN_CONFIG_LEN_CEILING st of
      (Inr cfg, st') \<Rightarrow> (Some (r, cfg), st')
    | (Inl e, st') \<Rightarrow> (None, st')) =
   first_success env dnpp rc (map (\<lambda>threshold. (threshold, r, body)) [9, 8, 7, 6, 5, 4]) st"
proof -
  have floor: "MIN_CONFIG_LEN_FLOOR = 5" and ceiling: "MIN_CONFIG_LEN_CEILING = 9"
    by (simp_all add: MIN_CONFIG_LEN_FLOOR_def MIN_CONFIG_LEN_CEILING_def)
  have s9: "verify_hash_loop env dnpp rc body 9 s =
     (case decrypt_and_decode_config env dnpp rc body 9 s of
        (Inr cfg, st') \<Rightarrow> (Inr cfg, st')
      | (Inl e, st') \<Rightarrow> verify_hash_loop env dnpp rc body 8 st')" for s
    by (rule verify_hash_loop_step) (simp_all add: floor)
  have s8: "verify_hash_loop env dnpp rc body 8 s =
     (case decrypt_and_decode_config env dnpp rc body 8 s of
        (Inr cfg, st') \<Rightarrow> (Inr cfg, st')
      | (Inl e, st') \<Rightarrow> verify_hash_loop env dnpp rc body 7 st')" for s
    by (rule verify_hash_loop_step) (simp_all add: floor)
  have s7: "verify_hash_loop env dnpp rc body 7 s =
     (case decrypt_and_decode_config env dnpp rc body 7 s of
        (Inr cfg, st') \<Rightarrow> (Inr cfg, st')
      | (Inl e, st') \<Rightarrow> verify_hash_loop env dnpp rc body 6 st')" for s
    by (rule verify_hash_loop_step) (simp_all add: floor)
  have s6: "verify_hash_loop env dnpp rc body 6 s =
     (case decrypt_and_decode_config env dnpp rc body 6 s of
        (Inr cfg, st') \<Rightarrow> (Inr cfg, st')
      | (Inl e, st') \<Rightarrow> verify_hash_loop env dnpp rc body 5 st')" for s
    by (rule verify_hash_loop_step) (simp_all add: floor)
  have s5: "verify_hash_loop env dnpp rc body 5 s =
     (case decrypt_and_decode_config env dnpp rc body 5 s of
        (Inr cfg, st') \<Rightarrow> (Inr cfg, st')
      | (Inl e, st') \<Rightarrow> verify_hash_loop env dnpp rc body 4 st')" for s
    by (rule verify_hash_loop_step) (simp_all add: floor)
  have s4: "verify_hash_loop env dnpp rc body 4 s =
            decrypt_and_decode_config env dnpp rc body 4 s" for s
    by (rule verify_hash_loop_below_floor) (simp add: floor)
  show ?thesis
    unfolding ceiling
    by (simp add: s9 s8 s7 s6 s5 s4 split: prod.splits sum.splits)
qed

text \<open>
  Claim C1. The loop of the VerifyHash() method tests the floor before it decrements the
  threshold, so after the decode at threshold 5 has failed it decodes once more at
  threshold 4 (\<open>verify_hash_loop_thresholds\<close>). On a payload whose marker is followed by
  a method with four plain fields, none of them \<open>UrlHost\<close>, the decode at threshold 5 fails
  and the method returns the four fields.
\<close>

theorem verify_hash_method_accepts_four_fields:
  "decrypt_and_decode_config fx_env (fx_payload fx_marker 100 []) False (fx_body 100) 5 st0 =
     (Inl (ConfigParserException ''Minimum threshold of config items not met: 4/5''), st0)
   \<and> get_config_verify_hash_method fx_env (fx_payload fx_marker 100 []) False st0 =
       (Inr (100, [(''Ports'', VInt 1), (''Hosts'', VInt 2), (''Version'', VInt 3),
                   (''Install'', VInt 4)]), st0)"
  by (simp add: fx_eval)

section \<open>The brute force over the static constructors\<close>

lemma first_success_append:
  "first_success env dnpp rc (xs @ ys) st =
     (case first_success env dnpp rc xs st of
        (Some r, st') \<Rightarrow> (Some r, st')
      | (None, st') \<Rightarrow> first_success env dnpp rc ys st')"
  by (induction xs arbitrary: st) (auto split: prod.splits sum.splits option.splits)


lemma cctor_for_loop_first_success:
  "cctor_for_loop env dnpp rc cands n None st =
   first_success env dnpp rc
     (map (\<lambda>(method_rva, method_body). (n, method_rva, method_body)) cands) st"
  by (induction cands arbitrary: st) (auto split: prod.splits sum.splits)

lemma cctor_while_loop_found:
  "cctor_while_loop env dnpp rc cands n (Some r) st = (Some r, st)"
  by (subst cctor_while_loop.simps) simp

lemma cctor_while_loop_below_floor:
  "n < MIN_CONFIG_LEN_FLOOR \<Longrightarrow> cctor_while_loop env dnpp rc cands n None st = (None, st)"
  by (subst cctor_while_loop.simps) simp

lemma cctor_while_loop_step:
  "MIN_CONFIG_LEN_FLOOR \<le> n \<Longrightarrow> m = n - 1 \<Longrightarrow>
   cctor_while_loop env dnpp rc cands n None st =
     (case first_success env dnpp rc
             (map (\<lambda>(method_rva, method_body). (n, method_rva, method_body)) cands) st of
        (Some r, st') \<Rightarrow> (Some r, st')
      | (None, st') \<Rightarrow> cctor_while_loop env dnpp rc cands m None st')"
  by (subst cctor_while_loop.simps)
     (auto simp: cctor_for_loop_first_success cctor_while_loop_found
           split: prod.splits option.splits)

lemma cctor_while_loop_schedule:
  "cctor_while_loop env dnpp rc cands MIN_CONFIG_LEN_CEILING None st =
   first_success env dnpp rc (brute_force_schedule cands) st"
proof -
  have floor: "MIN_CONFIG_LEN_FLOOR = 5" and ceiling: "MIN_CONFIG_LEN_CEILING = 9"
    by (simp_all add: MIN_CONFIG_LEN_FLOOR_def MIN_CONFIG_LEN_CEILING_def)
  have s9: "cctor_while_loop env dnpp rc cands 9 None s =
     (case first_success env dnpp rc (map (\<lambda>(r, b). (9, r, b)) cands) s of
        (Some r, st') \<Rightarrow> (Some r, st')
      | (None, st') \<Rightarrow> cctor_while_loop env dnpp rc cands 8 None st')" for s
    by (rule cctor_while_loop_step) (simp_all add: floor)
  have s8: "cctor_while_loop env dnpp rc cands 8 None s =
     (case first_success env dnpp rc (map (\<lambda>(r, b). (8, r, b)) cands) s of
        (Some r, st') \<Rightarrow> (Some r, st')
      | (None, st') \<Rightarrow> cctor_while_loop env dnpp rc cands 7 None st')" for s
    by (rule cctor_while_loop_step) (simp_all add: floor)
  have s7: "cctor_while_loop env dnpp rc cands 7 None s =
     (case first_success env dnpp rc (map (\<lambda>(r, b). (7, r, b)) cands) s of
        (Some r, st') \<Rightarrow> (Some r, st')
      | (None, st') \<Rightarrow> cctor_while_loop env dnpp rc cands 6 None st')" for s
    by (rule cctor_while_loop_step) (simp_all add: floor)
  have s6: "cctor_while_loop env dnpp rc cands 6 None s =
     (case first_success env dnpp rc (map (\<lambda>(r, b). (6, r, b)) cands) s of
        (Some r, st') \<Rightarrow> (Some r, st')
      | (None, st') \<Rightarrow> cctor_while_loop env dnpp rc cands 5 None st')" for s
    by (rule cctor_while_loop_step) (simp_all add: floor)
  have s5: "cctor_while_loop env dnpp rc cands 5 None s =
     (case first_success env dnpp rc (map (\<lambda>(r, b). (5, r, b)) cands) s of
        (Some r, st') \<Rightarrow> (Some r, st')
      | (None, st') \<Rightarrow> cctor_while_loop env dnpp rc cands 4 None st')" for s
    by (rule cctor_while_loop_step) (simp_all add: floor)
  have s4: "cctor_while_loop env dnpp rc cands 4 None s = (None, s)" for s
    by (rule cctor_while_loop_below_floor) (simp add: floor)
  show ?thesis
    unfolding ceiling brute_force_schedule_def
    by (simp add: first_success_append s9 s8 s7 s6 s5 s4 split: prod.splits option.splits)
qed





section \<open>The report of a failed parse\<close>

text \<open>
  Claim C4. The constructor is a total function of its inputs into reports: every
  exception of the \<^verbatim>\<open>try\<close> block is a value that the handler of line 105 turns into
  the text of the \<open>config\<close> field. When the block is left by an exception \<open>e\<close>, that field
  is the text built from the path and \<open>e\<close>, and \<open>sha256\<close> and \<open>yara_possible_family\<close> are
  those of the payload if it had been loaded and empty otherwise; when the block is not
  left by an exception, the field is a configuration mapping.
\<close>

theorem constructor_reports_failure:
  "(case fst (init_try env path yara_rule bytes_data rc pk (initial_report path)) of
      None \<Rightarrow>
        (\<exists>c. config (fst (RATConfigParser env path yara_rule bytes_data rc pk)) = Config c)
    | Some e \<Rightarrow>
        config (fst (RATConfigParser env path yara_rule bytes_data rc pk)) =
          ConfigText (''Exception encountered for '' @ path @ '': '' @ exn_str e))
   \<and> file_path (fst (RATConfigParser env path yara_rule bytes_data rc pk)) = path
   \<and> (fst (init_try env path yara_rule bytes_data rc pk (initial_report path)) \<noteq> None \<longrightarrow>
        report.sha256 (fst (RATConfigParser env path yara_rule bytes_data rc pk)) =
          (case loaded_payload env path yara_rule bytes_data of
             None \<Rightarrow> ''''
           | Some dnpp \<Rightarrow> dotnetpe_payload.sha256 dnpp)
        \<and> yara_possible_family (fst (RATConfigParser env path yara_rule bytes_data rc pk)) =
          (case loaded_payload env path yara_rule bytes_data of
             None \<Rightarrow> ''''
           | Some dnpp \<Rightarrow> yara_match dnpp))"
  by (auto simp: RATConfigParser_def init_try_def initial_report_def loaded_payload_def Let_def
           split: sum.splits prod.splits option.splits)

theorem constructor_reports_failure_witness:
  "fst (init_try fx_env ''memory'' None (Some []) False False (initial_report ''memory'')) =
     Some (ConfigParserException
             ''Could not identify config: No .cctor method could be found'')
   \<and> loaded_payload fx_env ''memory'' None (Some []) = Some (fx_payload [] 500 [])
   \<and> config (fst (RATConfigParser fx_env ''memory'' None (Some []) False False)) =
       ConfigText
         ''Exception encountered for memory: Could not identify config: No .cctor method could be found''
   \<and> report.sha256 (fst (RATConfigParser fx_env ''memory'' None (Some []) False False)) =
       ''9f86d081''
   \<and> yara_possible_family (fst (RATConfigParser fx_env ''memory'' None (Some []) False False)) =
       ''asyncrat''
   \<and> fst (RATConfigParser fx_env ''missing.bin'' None None False False) =
       \<lparr>file_path = ''missing.bin'', sha256 = '''', yara_possible_family = '''',
        key = '''', salt = '''',
        config = ConfigText ''Exception encountered for missing.bin: File not found''\<rparr>
   \<and> fst (RATConfigParser fx_env ''corrupt.bin'' None None False False) =
       \<lparr>file_path = ''corrupt.bin'', sha256 = '''', yara_possible_family = '''',
        key = '''', salt = '''',
        config = ConfigText ''Exception encountered for corrupt.bin: not a PE file''\<rparr>"
proof -
  have a: "fst (init_try fx_env ''memory'' None (Some []) False False (initial_report ''memory'')) =
     Some (ConfigParserException
             ''Could not identify config: No .cctor method could be found'')"
    by (simp add: fx_eval)
  have b: "loaded_payload fx_env ''memory'' None (Some []) = Some (fx_payload [] 500 [])"
    by (simp add: loaded_payload_def fx_env_def)
  have c: "config (fst (RATConfigParser fx_env ''memory'' None (Some []) False False)) =
       ConfigText
         ''Exception encountered for memory: Could not identify config: No .cctor method could be found''
     \<and> report.sha256 (fst (RATConfigParser fx_env ''memory'' None (Some []) False False)) =
         ''9f86d081''
     \<and> yara_possible_family (fst (RATConfigParser fx_env ''memory'' None (Some []) False False)) =
         ''asyncrat''"
    using constructor_reports_failure[of fx_env "''memory''" None "Some []" False False] a b
    by (simp add: fx_payload_def)
  have d: "fst (RATConfigParser fx_env ''missing.bin'' None None False False) =
       \<lparr>file_path = ''missing.bin'', sha256 = '''', yara_possible_family = '''',
        key = '''', salt = '''',
        config = ConfigText ''Exception encountered for missing.bin: File not found''\<rparr>"
    by (simp add: fx_eval)
  have e: "fst (RATConfigParser fx_env ''corrupt.bin'' None None False False) =
       \<lparr>file_path = ''corrupt.bin'', sha256 = '''', yara_possible_family = '''',
        key = '''', salt = '''',
        config = ConfigText ''Exception encountered for corrupt.bin: not a PE file''\<rparr>"
    by (simp add: fx_eval)
  from a b c d e show ?thesis by simp
qed

section \<open>The selection of a decryptor\<close>

lemma decryptor_loop_Break_selected:
  "decryptor_loop env dnpp ks item_data st = (Break b, st') \<Longrightarrow> decryptor st' \<noteq> None"
  by (induction ks arbitrary: st)
     (auto split: if_splits sum.splits option.splits prod.splits)

text \<open>
  Claim C6. Let the class \<open>c\<close> at the head of the registry not be marked incompatible, and
  let \<open>d\<close> be the decryptor in use for it: the selected one, or the one newly constructed
  when none is selected. If the decryption of the batch by \<open>d\<close> raises, the loop goes on
  with the rest of the registry in the state whose selection is none and whose list of
  incompatible classes is unchanged; if it succeeds, the loop ends at once with the
  decrypted batch and the decryptor selected. After any run of the loop that no
  constructor aborted, lines 159-160 raise \<open>All decryptors failed\<close> exactly when the
  registry was exhausted and no decryptor is selected; a run ended by \<^verbatim>\<open>break\<close> has a
  decryptor selected and yields the decrypted batch, and an exception of a constructor
  other than \<^verbatim>\<open>IncompatibleDecryptorException\<close> is passed on as it is.
\<close>

theorem decryptor_selection:
  "(c \<notin> set (incompatible_decryptors st) \<longrightarrow>
    (case decryptor st of None \<Rightarrow> new_decryptor env c dnpp | Some d0 \<Rightarrow> Inr d0) = Inr d \<longrightarrow>
      (\<forall>e. decrypt_encrypted_strings env d item_data = Inl e \<longrightarrow>
         decryptor_loop env dnpp (c # rest) item_data st =
           decryptor_loop env dnpp rest item_data (st\<lparr>decryptor := None\<rparr>))
      \<and> (\<forall>item_data' d'. decrypt_encrypted_strings env d item_data = Inr (item_data', d') \<longrightarrow>
           decryptor_loop env dnpp (c # rest) item_data st =
             (Break item_data', st\<lparr>decryptor := Some d'\<rparr>)))
   \<and> (decryptor_loop env dnpp ks item_data st = (ex, st') \<longrightarrow>
        ((\<forall>e. ex \<noteq> Raised e) \<longrightarrow>
           (check_decryptor_selected item_data (ex, st') =
              (Inl (ConfigParserException ''All decryptors failed''), st'))
           = (ex = Exhausted \<and> decryptor st' = None))
        \<and> (\<forall>b. ex = Break b \<longrightarrow>
             decryptor st' \<noteq> None
             \<and> check_decryptor_selected item_data (ex, st') = (Inr b, st'))
        \<and> (\<forall>e. ex = Raised e \<longrightarrow>
             check_decryptor_selected item_data (ex, st') = (Inl e, st')))"
proof (intro conjI impI allI)
  fix e
  assume "c \<notin> set (incompatible_decryptors st)"
    and "(case decryptor st of None \<Rightarrow> new_decryptor env c dnpp | Some d0 \<Rightarrow> Inr d0) = Inr d"
    and "decrypt_encrypted_strings env d item_data = Inl e"
  then show "decryptor_loop env dnpp (c # rest) item_data st =
             decryptor_loop env dnpp rest item_data (st\<lparr>decryptor := None\<rparr>)"
    by simp
next
  fix item_data' d'
  assume "c \<notin> set (incompatible_decryptors st)"
    and "(case decryptor st of None \<Rightarrow> new_decryptor env c dnpp | Some d0 \<Rightarrow> Inr d0) = Inr d"
    and "decrypt_encrypted_strings env d item_data = Inr (item_data', d')"
  then show "decryptor_loop env dnpp (c # rest) item_data st =
             (Break item_data', st\<lparr>decryptor := Some d'\<rparr>)"
    by simp
next
  assume run: "decryptor_loop env dnpp ks item_data st = (ex, st')"
    and "\<forall>e. ex \<noteq> Raised e"
  then show "(check_decryptor_selected item_data (ex, st') =
                (Inl (ConfigParserException ''All decryptors failed''), st'))
             = (ex = Exhausted \<and> decryptor st' = None)"
    using decryptor_loop_Break_selected[of env dnpp ks item_data st _ st']
    by (cases ex) (auto simp: check_decryptor_selected_def)
next
  fix b
  assume "decryptor_loop env dnpp ks item_data st = (ex, st')" and "ex = Break b"
  then show "decryptor st' \<noteq> None"
    using decryptor_loop_Break_selected[of env dnpp ks item_data st b st'] by simp
next
  fix b
  assume "decryptor_loop env dnpp ks item_data st = (ex, st')" and "ex = Break b"
  then show "check_decryptor_selected item_data (ex, st') = (Inr b, st')"
    using decryptor_loop_Break_selected[of env dnpp ks item_data st b st']
    by (auto simp: check_decryptor_selected_def)
next
  fix e
  assume "ex = Raised e"
  then show "check_decryptor_selected item_data (ex, st') = (Inl e, st')"
    by (simp add: check_decryptor_selected_def)
qed

theorem decryptor_selection_witness:
  "1 \<notin> set (incompatible_decryptors st0)
   \<and> (case decryptor st0 of None \<Rightarrow> new_decryptor fx_env 1 (fx_payload [] 100 [])
        | Some d0 \<Rightarrow> Inr d0) = Inr 1
   \<and> decrypt_encrypted_strings fx_env 1 [(''Key'', VStr ''enc128'')] =
       Inl (OtherException ''bad padding'')
   \<and> decryptor_loop fx_env (fx_payload [] 100 []) (1 # [2]) [(''Key'', VStr ''enc128'')] st0 =
       decryptor_loop fx_env (fx_payload [] 100 []) [2] [(''Key'', VStr ''enc128'')]
         (st0\<lparr>decryptor := None\<rparr>)
   \<and> decryptor_loop fx_env (fx_payload [] 100 []) [0, 1] [(''Key'', VStr ''enc128'')] st0 =
       (Exhausted, \<lparr>decryptor = None :: nat option, incompatible_decryptors = [0]\<rparr>)
   \<and> check_decryptor_selected [(''Key'', VStr ''enc128'')]
       (Exhausted, \<lparr>decryptor = None :: nat option, incompatible_decryptors = [0]\<rparr>) =
       (Inl (ConfigParserException ''All decryptors failed''),
        \<lparr>decryptor = None :: nat option, incompatible_decryptors = [0]\<rparr>)
   \<and> decrypt_encrypted_strings fx_env 2 [(''Key'', VStr ''enc128'')] =
       Inr ([(''Key'', VStr ''plain''), (''derived'', VStr ''yes'')], 12)
   \<and> decryptor_loop fx_env (fx_payload [] 100 []) (2 # []) [(''Key'', VStr ''enc128'')] st0 =
       (Break [(''Key'', VStr ''plain''), (''derived'', VStr ''yes'')],
        st0\<lparr>decryptor := Some 12\<rparr>)
   \<and> decryptor_loop fx_env (fx_payload [] 100 []) [0, 1, 2] [(''Key'', VStr ''enc128'')] st0 =
       (Break [(''Key'', VStr ''plain''), (''derived'', VStr ''yes'')],
        \<lparr>decryptor = Some (12 :: nat), incompatible_decryptors = [0]\<rparr>)
   \<and> check_decryptor_selected [(''Key'', VStr ''enc128'')]
       (Break [(''Key'', VStr ''plain''), (''derived'', VStr ''yes'')],
        \<lparr>decryptor = Some (12 :: nat), incompatible_decryptors = [0]\<rparr>) =
       (Inr [(''Key'', VStr ''plain''), (''derived'', VStr ''yes'')],
        \<lparr>decryptor = Some (12 :: nat), incompatible_decryptors = [0]\<rparr>)"
proof -
  let ?dnpp = "fx_payload [] 100 []"
  let ?batch = "[(''Key'', VStr ''enc128'')]"
  let ?plain = "[(''Key'', VStr ''plain''), (''derived'', VStr ''yes'')]"
  let ?failed = "\<lparr>decryptor = None :: nat option, incompatible_decryptors = [0]\<rparr>"
  let ?selected = "\<lparr>decryptor = Some (12 :: nat), incompatible_decryptors = [0]\<rparr>"
  have h1: "1 \<notin> set (incompatible_decryptors st0)"
    and h1': "2 \<notin> set (incompatible_decryptors st0)"
    by (simp_all add: st0_def)
  have h2: "(case decryptor st0 of None \<Rightarrow> new_decryptor fx_env 1 ?dnpp | Some d0 \<Rightarrow> Inr d0)
            = Inr 1"
    and h2': "(case decryptor st0 of None \<Rightarrow> new_decryptor fx_env 2 ?dnpp | Some d0 \<Rightarrow> Inr d0)
            = Inr 2"
    by (simp_all add: st0_def fx_env_def)
  have h3: "decrypt_encrypted_strings fx_env 1 ?batch = Inl (OtherException ''bad padding'')"
    by (simp add: fx_env_def)
  have h3': "decrypt_encrypted_strings fx_env 2 ?batch = Inr (?plain, 12)"
    by (simp add: fx_env_def)
  have run: "decryptor_loop fx_env ?dnpp [0, 1] ?batch st0 = (Exhausted, ?failed)"
    by (simp add: fx_env_def st0_def)
  have run': "decryptor_loop fx_env ?dnpp [0, 1, 2] ?batch st0 = (Break ?plain, ?selected)"
    by (simp add: fx_env_def st0_def)
  note fail = decryptor_selection[of 1 st0 fx_env ?dnpp 1 ?batch "[2]" "[0, 1]" Exhausted ?failed]
  note succ = decryptor_selection[of 2 st0 fx_env ?dnpp 2 ?batch "[]" "[0, 1, 2]"
                "Break ?plain" ?selected]
  have c1: "decryptor_loop fx_env ?dnpp (1 # [2]) ?batch st0 =
            decryptor_loop fx_env ?dnpp [2] ?batch (st0\<lparr>decryptor := None\<rparr>)"
    using fail h1 h2 h3 by blast
  have c2: "check_decryptor_selected ?batch (Exhausted, ?failed) =
            (Inl (ConfigParserException ''All decryptors failed''), ?failed)"
    using fail run by simp
  have c3: "decryptor_loop fx_env ?dnpp (2 # []) ?batch st0 =
            (Break ?plain, st0\<lparr>decryptor := Some 12\<rparr>)"
    using succ h1' h2' h3' by blast
  have c4: "check_decryptor_selected ?batch (Break ?plain, ?selected) = (Inr ?plain, ?selected)"
    using succ run' by blast
  show ?thesis
    by (intro conjI) (rule h1 h2 h3 c1 run c2 h3' c3 run' c4)+
qed

section \<open>The minimum number of fields\<close>

lemma items_loop_snoc:
  "items_loop env dnpp body (items @ [item]) dc cfm l st =
     (case items_loop env dnpp body items dc cfm l st of
        (Inl e, st1) \<Rightarrow> (Inl e, st1)
      | (Inr (dc1, cfm1, l1), st1) \<Rightarrow> items_loop env dnpp body [item] dc1 cfm1 l1 st1)"
  by (induction items arbitrary: dc cfm l st) (auto split: sum.splits prod.splits)

lemma items_loop_last_batch:
  "items_loop env dnpp body [item] dc cfm l st = (Inr (dc', cfm', l'), st') \<Longrightarrow>
   \<exists>raw item_data.
     parse_from item body = Inr raw
     \<and> translate_fields dnpp raw cfm [] = Inr (cfm', item_data)
     \<and> (if length item_data > 0
         then (\<exists>item_data'. post_process env dnpp (item_type item) item_data st
                               = (Inr item_data', st')
                 \<and> l' = Some item_data' \<and> dc' = dict_update dc item_data')
         else l' = Some item_data \<and> dc' = dc \<and> st' = st)"
  by (auto split: sum.splits prod.splits if_splits)

text \<open>
  Claim C7. Let the loop over the item schemas end without an exception, with the
  accumulated mapping \<open>decoded_config\<close> and the batch \<open>item_data\<close> of the schema processed
  last (\<open>items_loop_snoc\<close>, \<open>items_loop_last_batch\<close>). If the mapping has fewer entries
  than the threshold and \<open>UrlHost\<close> is not a key of that batch, the decoding fails with the
  error of line 172; otherwise the check is passed over and the result is that of lines
  175-194. Without remapping these lines return the mapping, so the decoding then fails
  with that error if and only if the mapping is too short and \<open>UrlHost\<close> is missing. With
  \<open>UrlHost\<close> in the batch the result does not depend on the threshold.
\<close>

theorem minimum_threshold_check:
  "items_loop env dnpp body (SUPPORTED_CONFIG_ITEMS env) [] [] None st =
     (Inr (decoded_config, cfm, Some item_data), st') \<longrightarrow>
   (int (length decoded_config) < n \<and> ''UrlHost'' \<notin> set (dict_keys item_data) \<longrightarrow>
      decrypt_and_decode_config env dnpp rc body n st =
        (Inl (ConfigParserException
               (''Minimum threshold of config items not met: ''
                  @ str_nat (length decoded_config) @ ''/'' @ str_int n)), st'))
   \<and> (\<not> (int (length decoded_config) < n \<and> ''UrlHost'' \<notin> set (dict_keys item_data)) \<longrightarrow>
        decrypt_and_decode_config env dnpp rc body n st =
          (if rc then (remap env cfm decoded_config, st') else (Inr decoded_config, st')))
   \<and> ((\<exists>e. fst (decrypt_and_decode_config env dnpp False body n st) = Inl e)
        = (int (length decoded_config) < n \<and> ''UrlHost'' \<notin> set (dict_keys item_data)))
   \<and> (''UrlHost'' \<in> set (dict_keys item_data) \<longrightarrow>
        (\<forall>n'. decrypt_and_decode_config env dnpp rc body n' st =
              decrypt_and_decode_config env dnpp rc body n st))"
  by (auto simp: decrypt_and_decode_config_def check_min_config_len_def)

theorem minimum_threshold_check_witness:
  "items_loop fx_env (fx_payload [] 100 []) (fx_body 200) (SUPPORTED_CONFIG_ITEMS fx_env)
       [] [] None st0 =
     (Inr ([(''Ports'', VInt 1), (''Hosts'', VInt 2), (''Version'', VInt 3)],
           [(1, ''Ports''), (2, ''Hosts''), (3, ''Version'')], Some []), st0)
   \<and> int (length [(''Ports'', VInt 1), (''Hosts'', VInt 2), (''Version'', VInt 3)]) < 9
   \<and> ''UrlHost'' \<notin> set (dict_keys ([] :: (string \<times> pyval) list))
   \<and> decrypt_and_decode_config fx_env (fx_payload [] 100 []) False (fx_body 200) 9 st0 =
       (Inl (ConfigParserException ''Minimum threshold of config items not met: 3/9''), st0)
   \<and> items_loop fx_env (fx_payload [] 100 []) (fx_body 400) (SUPPORTED_CONFIG_ITEMS fx_env)
       [] [] None st0 =
       (Inr ([(''Ports'', VInt 1), (''UrlHost'', VStr ''plain''), (''derived'', VStr ''yes'')],
             [(1, ''Ports''), (135, ''UrlHost'')],
             Some [(''UrlHost'', VStr ''plain''), (''derived'', VStr ''yes'')]),
        \<lparr>decryptor = Some (12 :: nat), incompatible_decryptors = [0]\<rparr>)
   \<and> ''UrlHost'' \<in> set (dict_keys [(''UrlHost'', VStr ''plain''), (''derived'', VStr ''yes'')])
   \<and> decrypt_and_decode_config fx_env (fx_payload [] 100 []) False (fx_body 400) 9 st0 =
       (Inr [(''Ports'', VInt 1), (''UrlHost'', VStr ''plain''), (''derived'', VStr ''yes'')],
        \<lparr>decryptor = Some (12 :: nat), incompatible_decryptors = [0]\<rparr>)"
proof -
  let ?dnpp = "fx_payload [] 100 []"
  let ?dc = "[(''Ports'', VInt 1), (''Hosts'', VInt 2), (''Version'', VInt 3)]"
  let ?dc' = "[(''Ports'', VInt 1), (''UrlHost'', VStr ''plain''), (''derived'', VStr ''yes'')]"
  let ?batch' = "[(''UrlHost'', VStr ''plain''), (''derived'', VStr ''yes'')]"
  let ?st' = "\<lparr>decryptor = Some (12 :: nat), incompatible_decryptors = [0]\<rparr>"
  have i1: "items_loop fx_env ?dnpp (fx_body 200) (SUPPORTED_CONFIG_ITEMS fx_env) [] [] None st0
            = (Inr (?dc, [(1, ''Ports''), (2, ''Hosts''), (3, ''Version'')], Some []), st0)"
    by (simp add: fx_eval)
  have s1: "int (length ?dc) < 9" and u1: "''UrlHost'' \<notin> set (dict_keys ([] :: (string \<times> pyval) list))"
    by (simp_all add: dict_keys_def)
  have c1: "decrypt_and_decode_config fx_env ?dnpp False (fx_body 200) 9 st0 =
            (Inl (ConfigParserException ''Minimum threshold of config items not met: 3/9''), st0)"
    using minimum_threshold_check[of fx_env ?dnpp "fx_body 200" st0 ?dc
            "[(1, ''Ports''), (2, ''Hosts''), (3, ''Version'')]" "[]" st0 9 False] i1 s1 u1
    by (simp add: str_int_def str_nat.simps)
  have i2: "items_loop fx_env ?dnpp (fx_body 400) (SUPPORTED_CONFIG_ITEMS fx_env) [] [] None st0
            = (Inr (?dc', [(1, ''Ports''), (135, ''UrlHost'')], Some ?batch'), ?st')"
    by (simp add: fx_eval)
  have u2: "''UrlHost'' \<in> set (dict_keys ?batch')"
    by (simp add: dict_keys_def)
  have c2: "decrypt_and_decode_config fx_env ?dnpp False (fx_body 400) 9 st0 = (Inr ?dc', ?st')"
    using minimum_threshold_check[of fx_env ?dnpp "fx_body 400" st0 ?dc'
            "[(1, ''Ports''), (135, ''UrlHost'')]" ?batch' ?st' 9 False] i2 u2
    by simp
  show ?thesis
    by (intro conjI) (rule i1 s1 u1 c1 i2 u2 c2)+
qed

section \<open>The key and the salt of the report\<close>

lemma translate_fields_Nil [simp]: "translate_fields dnpp [] cfm item_data = Inr (cfm, item_data)"
  by simp

lemma post_process_not_encrypted:
  "ty \<noteq> EncryptedStringConfigItem \<Longrightarrow> snd (post_process env dnpp ty item_data st) = st"
  by (cases ty) (auto simp: post_process_def split: sum.splits)

lemma items_loop_no_encrypted:
  assumes "no_encrypted_string_fields env"
    and "set items \<subseteq> set (SUPPORTED_CONFIG_ITEMS env)"
  shows "snd (items_loop env dnpp body items dc cfm l st) = st"
  using assms(2)
proof (induction items arbitrary: dc cfm l)
  case Nil
  show ?case by simp
next
  case (Cons item items)
  have ih: "snd (items_loop env dnpp body items dc1 cfm1 l1 st) = st" for dc1 cfm1 l1
    using Cons.prems by (intro Cons.IH) simp
  show ?case
  proof (cases "parse_from item body")
    case (Inl e)
    then show ?thesis by simp
  next
    case (Inr raw)
    show ?thesis
    proof (cases "item_type item = EncryptedStringConfigItem")
      case True
      have "item \<in> set (SUPPORTED_CONFIG_ITEMS env)"
        using Cons.prems by simp
      then have "raw = []"
        using assms(1) True Inr unfolding no_encrypted_string_fields_def by blast
      then show ?thesis
        using Inr ih by simp
    next
      case False
      show ?thesis
      proof (cases "translate_fields dnpp raw cfm []")
        case (Inl e)
        then show ?thesis using Inr by simp
      next
        case tr: (Inr p)
        obtain cfm' item_data where p: "p = (cfm', item_data)" by (cases p)
        obtain r st1 where pp: "post_process env dnpp (item_type item) item_data st = (r, st1)"
          by (cases "post_process env dnpp (item_type item) item_data st")
        have "st1 = st"
          using post_process_not_encrypted[OF False, of env dnpp item_data st] pp by simp
        then show ?thesis
          using Inr tr p pp ih by (cases r) auto
      qed
    qed
  qed
qed

lemma decrypt_and_decode_config_no_encrypted:
  "no_encrypted_string_fields env \<Longrightarrow>
   snd (decrypt_and_decode_config env dnpp rc body n st) = st"
  using items_loop_no_encrypted[of env "SUPPORTED_CONFIG_ITEMS env" dnpp body "[]" "[]" None st]
  by (auto simp: decrypt_and_decode_config_def split: prod.splits sum.splits option.splits)

lemma first_success_no_encrypted:
  "no_encrypted_string_fields env \<Longrightarrow> snd (first_success env dnpp rc attempts st) = st"
proof (induction attempts)
  case Nil
  show ?case by simp
next
  case (Cons a attempts)
  obtain t r b where a: "a = (t, r, b)" by (cases a)
  show ?case
    using decrypt_and_decode_config_no_encrypted[OF Cons.prems, of dnpp rc b t st] Cons
    by (auto simp: a split: prod.splits sum.splits)
qed

lemma get_config_verify_hash_method_no_encrypted:
  assumes "no_encrypted_string_fields env"
  shows "snd (get_config_verify_hash_method env dnpp rc st) = st"
proof -
  have "st' = st" if run: "verify_hash_loop env dnpp rc body MIN_CONFIG_LEN_CEILING st = (r, st')"
    for body r st'
  proof -
    have "snd (case verify_hash_loop env dnpp rc body MIN_CONFIG_LEN_CEILING st of
                 (Inr cfg, st') \<Rightarrow> (Some (0 :: int, cfg), st')
               | (Inl e, st') \<Rightarrow> (None, st')) = st"
      unfolding verify_hash_loop_thresholds by (rule first_success_no_encrypted[OF assms])
    then show ?thesis
      unfolding run by (cases r) simp_all
  qed
  then show ?thesis
    by (auto simp: get_config_verify_hash_method_def split: option.splits sum.splits prod.splits)
qed

lemma get_config_cctor_brute_force_no_encrypted:
  assumes "no_encrypted_string_fields env"
  shows "snd (get_config_cctor_brute_force env dnpp rc st) = st"
proof -
  have "st' = st" if "cctor_while_loop env dnpp rc cands MIN_CONFIG_LEN_CEILING None st = (r, st')"
    for cands r st'
    using first_success_no_encrypted[OF assms, of dnpp rc "brute_force_schedule cands" st] that
    by (simp add: cctor_while_loop_schedule)
  then show ?thesis
    by (auto simp: get_config_cctor_brute_force_def split: option.splits sum.splits prod.splits)
qed

lemma get_config_no_encrypted:
  assumes "no_encrypted_string_fields env"
  shows "snd (get_config env dnpp rc pk st) = st"
  using get_config_verify_hash_method_no_encrypted[OF assms, of dnpp rc st]
    get_config_cctor_brute_force_no_encrypted[OF assms, of dnpp rc st]
  by (auto simp: get_config_def split: sum.splits prod.splits)

text \<open>
  Claim C9. When the \<^verbatim>\<open>try\<close> block of the constructor ends without an exception, the
  fields \<open>key\<close> and \<open>salt\<close> of the report are read off the decryptor that is selected at
  the end of the parse: \<open>None\<close> when no decryptor is selected, and otherwise, for each
  of the two, the hex encoding of the value of the decryptor, or \<open>None\<close> when the decryptor
  has none. When no encrypted-string field exists, no decryptor is ever selected, and both
  fields are \<open>None\<close>.
\<close>

theorem key_and_salt_reported:
  "init_try env path yara_rule bytes_data rc pk (initial_report path) = (None, rep, st) \<longrightarrow>
     RATConfigParser env path yara_rule bytes_data rc pk = (rep, st)
     \<and> key rep =
         (case decryptor st of
            None \<Rightarrow> ''None''
          | Some d \<Rightarrow> (case decryptor_key env d of None \<Rightarrow> ''None'' | Some k \<Rightarrow> hex k))
     \<and> salt rep =
         (case decryptor st of
            None \<Rightarrow> ''None''
          | Some d \<Rightarrow> (case decryptor_salt env d of None \<Rightarrow> ''None'' | Some s \<Rightarrow> hex s))
     \<and> (no_encrypted_string_fields env \<longrightarrow>
          decryptor st = None \<and> key rep = ''None'' \<and> salt rep = ''None'')"
proof (intro impI)
  assume ok: "init_try env path yara_rule bytes_data rc pk (initial_report path) = (None, rep, st)"
  let ?st0 = "\<lparr>decryptor = None :: 'a option, incompatible_decryptors = []\<rparr>"
  from ok obtain dnpp c where
    run: "get_config env dnpp rc pk ?st0 = (Inr c, st)"
    and rep: "key rep = (case decryptor st of None \<Rightarrow> ''None''
                | Some d \<Rightarrow> (case decryptor_key env d of None \<Rightarrow> ''None'' | Some k \<Rightarrow> hex k))"
      "salt rep = (case decryptor st of None \<Rightarrow> ''None''
                | Some d \<Rightarrow> (case decryptor_salt env d of None \<Rightarrow> ''None'' | Some s \<Rightarrow> hex s))"
    by (auto simp: init_try_def Let_def split: if_splits sum.splits prod.splits)
  have none: "decryptor st = None" if "no_encrypted_string_fields env"
    using get_config_no_encrypted[OF that, of dnpp rc pk ?st0] run by simp
  show "RATConfigParser env path yara_rule bytes_data rc pk = (rep, st)
     \<and> key rep =
         (case decryptor st of
            None \<Rightarrow> ''None''
          | Some d \<Rightarrow> (case decryptor_key env d of None \<Rightarrow> ''None'' | Some k \<Rightarrow> hex k))
     \<and> salt rep =
         (case decryptor st of
            None \<Rightarrow> ''None''
          | Some d \<Rightarrow> (case decryptor_salt env d of None \<Rightarrow> ''None'' | Some s \<Rightarrow> hex s))
     \<and> (no_encrypted_string_fields env \<longrightarrow>
          decryptor st = None \<and> key rep = ''None'' \<and> salt rep = ''None'')"
    using ok rep none by (simp add: RATConfigParser_def)
qed

theorem key_and_salt_reported_witness:
  "init_try fx_env ''memory'' None (Some fx_marker) False False (initial_report ''memory'') =
     (None,
      \<lparr>file_path = ''memory'', sha256 = ''9f86d081'', yara_possible_family = ''asyncrat'',
       key = ''aa0b'', salt = ''None'',
       config = Config [(''Delay'', VInt 6), (''MTX'', VInt 5), (''Install'', VInt 4),
                        (''Version'', VInt 3), (''Hosts'', VInt 2), (''Ports'', VInt 1),
                        (''Key'', VStr ''plain''), (''derived'', VStr ''yes'')]\<rparr>,
      \<lparr>decryptor = Some 12, incompatible_decryptors = [0]\<rparr>)
   \<and> fst (RATConfigParser fx_env ''memory'' None (Some fx_marker) False False) =
       \<lparr>file_path = ''memory'', sha256 = ''9f86d081'', yara_possible_family = ''asyncrat'',
        key = ''aa0b'', salt = ''None'',
        config = Config [(''Delay'', VInt 6), (''MTX'', VInt 5), (''Install'', VInt 4),
                         (''Version'', VInt 3), (''Hosts'', VInt 2), (''Ports'', VInt 1),
                         (''Key'', VStr ''plain''), (''derived'', VStr ''yes'')]\<rparr>
   \<and> no_encrypted_string_fields fx_env_plain
   \<and> init_try fx_env_plain ''sample.bin'' None None False False (initial_report ''sample.bin'') =
       (None,
        \<lparr>file_path = ''sample.bin'', sha256 = ''9f86d081'', yara_possible_family = ''asyncrat'',
         key = ''None'', salt = ''None'',
         config = Config [(''Ports'', VInt 1), (''Hosts'', VInt 2), (''Version'', VInt 3),
                          (''Install'', VInt 4), (''MTX'', VInt 5), (''Delay'', VInt 6)]\<rparr>,
        st0)
   \<and> decryptor (snd (RATConfigParser fx_env_plain ''sample.bin'' None None False False)) = None
   \<and> key (fst (RATConfigParser fx_env_plain ''sample.bin'' None None False False)) = ''None''
   \<and> salt (fst (RATConfigParser fx_env_plain ''sample.bin'' None None False False)) = ''None''"
proof -
  let ?rep = "\<lparr>file_path = ''memory'', sha256 = ''9f86d081'', yara_possible_family = ''asyncrat'',
       key = ''aa0b'', salt = ''None'',
       config = Config [(''Delay'', VInt 6), (''MTX'', VInt 5), (''Install'', VInt 4),
                        (''Version'', VInt 3), (''Hosts'', VInt 2), (''Ports'', VInt 1),
                        (''Key'', VStr ''plain''), (''derived'', VStr ''yes'')]\<rparr>"
  let ?st = "\<lparr>decryptor = Some (12 :: nat), incompatible_decryptors = [0]\<rparr>"
  let ?rep' = "\<lparr>file_path = ''sample.bin'', sha256 = ''9f86d081'',
         yara_possible_family = ''asyncrat'', key = ''None'', salt = ''None'',
         config = Config [(''Ports'', VInt 1), (''Hosts'', VInt 2), (''Version'', VInt 3),
                          (''Install'', VInt 4), (''MTX'', VInt 5), (''Delay'', VInt 6)]\<rparr>"
  have a: "init_try fx_env ''memory'' None (Some fx_marker) False False
             (initial_report ''memory'') = (None, ?rep, ?st)"
    by (simp add: fx_eval)
  have b: "fst (RATConfigParser fx_env ''memory'' None (Some fx_marker) False False) = ?rep"
    using key_and_salt_reported[of fx_env "''memory''" None "Some fx_marker" False False ?rep ?st]
      a by simp
  have c: "no_encrypted_string_fields fx_env_plain"
    by (auto simp: no_encrypted_string_fields_def fx_env_plain_def fx_env_def fx_items_def)
  have d: "init_try fx_env_plain ''sample.bin'' None None False False
             (initial_report ''sample.bin'') = (None, ?rep', st0)"
    by (simp add: fx_eval)
  have e: "RATConfigParser fx_env_plain ''sample.bin'' None None False False = (?rep', st0)
           \<and> decryptor st0 = (None :: nat option) \<and> key ?rep' = ''None'' \<and> salt ?rep' = ''None''"
    using key_and_salt_reported[of fx_env_plain "''sample.bin''" None None False False ?rep' st0]
      c d by blast
  show ?thesis
    using a b c d e by simp
qed

section \<open>The key of the report after a failure\<close>

lemma hex_empty_iff: "hex bs = [] \<longleftrightarrow> bs = []"
  by (cases bs) (simp_all add: hex_def hex_byte_def)

text \<open>
  Claim C10, as stated: the \<open>key\<close> field is empty exactly on the failed parses. The hex
  encoding of a key of length zero is the empty string as well: with decryptors that report
  such a key, a parse that succeeds has the empty \<open>key\<close> field.
\<close>

theorem empty_key_successful_parse_counterexample:
  "config (fst (RATConfigParser fx_env_empty_key ''memory'' None (Some fx_marker) False False)) =
     Config [(''Delay'', VInt 6), (''MTX'', VInt 5), (''Install'', VInt 4),
             (''Version'', VInt 3), (''Hosts'', VInt 2), (''Ports'', VInt 1),
             (''Key'', VStr ''plain''), (''derived'', VStr ''yes'')]
   \<and> key (fst (RATConfigParser fx_env_empty_key ''memory'' None (Some fx_marker) False False)) =
       ''''"
  by (simp add: fx_eval)

text \<open>
  Claim C10, amended: when an exception leaves the \<^verbatim>\<open>try\<close> block, the fields \<open>key\<close> and
  \<open>salt\<close> of the report keep their initial value, the empty string. When none does, \<open>key\<close>
  is \<open>None\<close> or the hex encoding of the key of the selected decryptor, and it is empty
  exactly when that key has length zero.
\<close>

theorem key_after_failure_and_success:
  "(case init_try env path yara_rule bytes_data rc pk (initial_report path) of
      (Some e, rep, st) \<Rightarrow>
        key (fst (RATConfigParser env path yara_rule bytes_data rc pk)) = ''''
        \<and> salt (fst (RATConfigParser env path yara_rule bytes_data rc pk)) = ''''
    | (None, rep, st) \<Rightarrow>
        (key (fst (RATConfigParser env path yara_rule bytes_data rc pk)) = ''None''
         \<or> (\<exists>d k. decryptor st = Some d \<and> decryptor_key env d = Some k
                \<and> key (fst (RATConfigParser env path yara_rule bytes_data rc pk)) = hex k))
        \<and> ((key (fst (RATConfigParser env path yara_rule bytes_data rc pk)) = '''')
            = (\<exists>d. decryptor st = Some d \<and> decryptor_key env d = Some [])))"
  by (auto simp: RATConfigParser_def init_try_def initial_report_def Let_def hex_empty_iff
           split: sum.splits prod.splits option.splits)

theorem key_after_failure_and_success_witness:
  "init_try fx_env ''memory'' None (Some []) False False (initial_report ''memory'') =
     (Some (ConfigParserException
              ''Could not identify config: No .cctor method could be found''),
      \<lparr>file_path = ''memory'', sha256 = ''9f86d081'', yara_possible_family = ''asyncrat'',
       key = '''', salt = '''', config = Config []\<rparr>, st0)
   \<and> key (fst (RATConfigParser fx_env ''memory'' None (Some []) False False)) = ''''
   \<and> salt (fst (RATConfigParser fx_env ''memory'' None (Some []) False False)) = ''''"
proof -
  have a: "init_try fx_env ''memory'' None (Some []) False False (initial_report ''memory'') =
     (Some (ConfigParserException
              ''Could not identify config: No .cctor method could be found''),
      \<lparr>file_path = ''memory'', sha256 = ''9f86d081'', yara_possible_family = ''asyncrat'',
       key = '''', salt = '''', config = Config []\<rparr>, st0)"
    by (simp add: fx_eval)
  have b: "key (fst (RATConfigParser fx_env ''memory'' None (Some []) False False)) = ''''
           \<and> salt (fst (RATConfigParser fx_env ''memory'' None (Some []) False False)) = ''''"
    using key_after_failure_and_success[of fx_env "''memory''" None "Some []" False False] a
    by simp
  show ?thesis
    using a b by simp
qed

section \<open>Incompatible decryptor classes\<close>

lemma marked_refl: "marked_by_construction env dnpp st st"
  by (auto simp: marked_by_construction_def list_all_iff)

lemma marked_trans:
  "marked_by_construction env dnpp st st1 \<Longrightarrow> marked_by_construction env dnpp st1 st2 \<Longrightarrow>
   marked_by_construction env dnpp st st2"
  by (auto simp: marked_by_construction_def list_all_iff)

lemma marked_mem:
  "marked_by_construction env dnpp st st' \<Longrightarrow> k \<in> set (incompatible_decryptors st) \<Longrightarrow>
   k \<in> set (incompatible_decryptors st')"
  by (auto simp: marked_by_construction_def)

lemma marked_reset: "marked_by_construction env dnpp st (st\<lparr>decryptor := x\<rparr>)"
  by (auto simp: marked_by_construction_def list_all_iff)

lemma marked_append:
  "new_decryptor env c dnpp = Inl e \<Longrightarrow> is_incompatible_exn e \<Longrightarrow>
   marked_by_construction env dnpp st
     (st\<lparr>incompatible_decryptors := incompatible_decryptors st @ [c]\<rparr>)"
  by (auto simp: marked_by_construction_def list_all_iff)

lemma decryptor_loop_marked:
  "marked_by_construction env dnpp st (snd (decryptor_loop env dnpp ks item_data st))"
proof (induction ks arbitrary: st)
  case Nil
  show ?case by (simp add: marked_refl)
next
  case (Cons c ks)
  show ?case
  proof (cases "c \<in> set (incompatible_decryptors st)")
    case True
    then show ?thesis using Cons.IH[of st] by simp
  next
    case False
    show ?thesis
    proof (cases "case decryptor st of None \<Rightarrow> new_decryptor env c dnpp | Some d \<Rightarrow> Inr d")
      case (Inl e)
      then have nd: "new_decryptor env c dnpp = Inl e"
        by (auto split: option.splits)
      show ?thesis
      proof (cases "is_incompatible_exn e")
        case True
        have "marked_by_construction env dnpp st
                (st\<lparr>incompatible_decryptors := incompatible_decryptors st @ [c]\<rparr>)"
          using nd True by (rule marked_append)
        then show ?thesis
          using Inl False True
            Cons.IH[of "st\<lparr>incompatible_decryptors := incompatible_decryptors st @ [c]\<rparr>"]
          by (auto intro: marked_trans)
      next
        case notinc: False
        then show ?thesis using Inl False by (simp add: marked_refl)
      qed
    next
      case (Inr d)
      show ?thesis
      proof (cases "decrypt_encrypted_strings env d item_data")
        case (Inl e)
        then show ?thesis
          using Inr False Cons.IH[of "st\<lparr>decryptor := None\<rparr>"] marked_reset[of env dnpp st None]
          by (auto intro: marked_trans)
      next
        case r: (Inr p)
        then show ?thesis
          using Inr False by (cases p) (simp add: marked_reset)
      qed
    qed
  qed
qed

lemma decryptor_loop_replace_constructor:
  "k \<in> set (incompatible_decryptors st) \<Longrightarrow>
   decryptor_loop (replace_constructor env k c') dnpp ks item_data st =
   decryptor_loop env dnpp ks item_data st"
proof (induction ks arbitrary: st)
  case Nil
  show ?case by simp
next
  case (Cons c ks)
  show ?case
  proof (cases "c \<in> set (incompatible_decryptors st)")
    case True
    then show ?thesis using Cons by simp
  next
    case False
    then have "c \<noteq> k" using Cons.prems by auto
    then have nd: "new_decryptor (replace_constructor env k c') c dnpp = new_decryptor env c dnpp"
      by (simp add: replace_constructor_def)
    have de: "decrypt_encrypted_strings (replace_constructor env k c') =
              decrypt_encrypted_strings env"
      by (simp add: replace_constructor_def)
    have ih1: "decryptor_loop (replace_constructor env k c') dnpp ks item_data
                 (st\<lparr>incompatible_decryptors := incompatible_decryptors st @ [c]\<rparr>) =
               decryptor_loop env dnpp ks item_data
                 (st\<lparr>incompatible_decryptors := incompatible_decryptors st @ [c]\<rparr>)"
      using Cons.prems by (intro Cons.IH) simp
    have ih2: "decryptor_loop (replace_constructor env k c') dnpp ks item_data
                 (st\<lparr>decryptor := None\<rparr>) =
               decryptor_loop env dnpp ks item_data (st\<lparr>decryptor := None\<rparr>)"
      using Cons.prems by (intro Cons.IH) simp
    show ?thesis
      using False by (simp add: nd de ih1 ih2 split: option.splits sum.splits prod.splits)
  qed
qed
lemma replace_constructor_simps [simp]:
  "SUPPORTED_DECRYPTORS (replace_constructor env k c) = SUPPORTED_DECRYPTORS env"
  "SUPPORTED_CONFIG_ITEMS (replace_constructor env k c) = SUPPORTED_CONFIG_ITEMS env"
  "check_key_n_value (replace_constructor env k c) = check_key_n_value env"
  "KNOWN_CONFIG_FIELD_NAMES (replace_constructor env k c) = KNOWN_CONFIG_FIELD_NAMES env"
  "decrypt_encrypted_strings (replace_constructor env k c) = decrypt_encrypted_strings env"
  by (simp_all add: replace_constructor_def)

lemma check_decryptor_selected_snd [simp]:
  "snd (check_decryptor_selected item_data r) = snd r"
  by (auto simp: check_decryptor_selected_def split: prod.splits loop_exit.splits)

lemma post_process_marked:
  "marked_by_construction env dnpp st (snd (post_process env dnpp ty item_data st))"
  by (cases ty)
     (auto simp: post_process_def marked_refl decryptor_loop_marked split: sum.splits)

lemma post_process_replace_constructor:
  "k \<in> set (incompatible_decryptors st) \<Longrightarrow>
   post_process (replace_constructor env k c') dnpp ty item_data st =
   post_process env dnpp ty item_data st"
  by (cases ty)
     (auto simp: post_process_def decryptor_loop_replace_constructor split: sum.splits)

lemma items_loop_marked:
  "marked_by_construction env dnpp st
     (snd (items_loop env dnpp body items dc cfm last_item_data st))"
proof (induction items arbitrary: dc cfm last_item_data st)
  case Nil
  show ?case by (simp add: marked_refl)
next
  case (Cons item items)
  show ?case
  proof (cases "parse_from item body")
    case (Inl e)
    then show ?thesis by (simp add: marked_refl)
  next
    case (Inr raw)
    show ?thesis
    proof (cases "translate_fields dnpp raw cfm []")
      case (Inl e)
      then show ?thesis using Inr by (simp add: marked_refl)
    next
      case tr: (Inr p)
      obtain cfm' item_data where p: "p = (cfm', item_data)" by (cases p)
      show ?thesis
      proof (cases "length item_data > 0")
        case False
        then show ?thesis using Inr tr p Cons.IH by simp
      next
        case True
        obtain r st1 where pp: "post_process env dnpp (item_type item) item_data st = (r, st1)"
          by (cases "post_process env dnpp (item_type item) item_data st")
        have m1: "marked_by_construction env dnpp st st1"
          using post_process_marked[of env dnpp st "item_type item" item_data] pp by simp
        show ?thesis
        proof (cases r)
          case (Inl e)
          then show ?thesis using Inr tr p True pp m1 by simp
        next
          case r: (Inr item_data')
          have "marked_by_construction env dnpp st1
                  (snd (items_loop env dnpp body items (dict_update dc item_data') cfm'
                          (Some item_data') st1))"
            by (rule Cons.IH)
          with m1 show ?thesis
            using Inr tr p True pp r by (auto intro: marked_trans)
        qed
      qed
    qed
  qed
qed

lemma items_loop_replace_constructor:
  "k \<in> set (incompatible_decryptors st) \<Longrightarrow>
   items_loop (replace_constructor env k c') dnpp body items dc cfm last_item_data st =
   items_loop env dnpp body items dc cfm last_item_data st"
proof (induction items arbitrary: dc cfm last_item_data st)
  case Nil
  show ?case by simp
next
  case (Cons item items)
  have pp: "post_process (replace_constructor env k c') dnpp ty item_data st =
            post_process env dnpp ty item_data st" for ty item_data
    using Cons.prems by (rule post_process_replace_constructor)
  have ih: "items_loop (replace_constructor env k c') dnpp body items dc1 cfm1 l1 st1 =
            items_loop env dnpp body items dc1 cfm1 l1 st1"
    if "post_process env dnpp ty item_data st = (r, st1)" for dc1 cfm1 l1 st1 ty item_data r
  proof (rule Cons.IH)
    have "marked_by_construction env dnpp st st1"
      using post_process_marked[of env dnpp st ty item_data] that by simp
    then show "k \<in> set (incompatible_decryptors st1)"
      using Cons.prems by (rule marked_mem)
  qed
  show ?case
    using Cons.prems
    by (auto simp: pp ih Cons.IH split: sum.splits prod.splits)
qed

lemma remap_loop_replace_constructor [simp]:
  "remap_loop (replace_constructor env k c') ks cfm dc sdc nf = remap_loop env ks cfm dc sdc nf"
  by (induction ks arbitrary: sdc nf) (auto split: option.splits sum.splits)

lemma remap_replace_constructor [simp]:
  "remap (replace_constructor env k c') cfm dc = remap env cfm dc"
  by (simp add: remap_def)

lemma decrypt_and_decode_config_marked:
  "marked_by_construction env dnpp st
     (snd (decrypt_and_decode_config env dnpp rc body n st))"
  using items_loop_marked[of env dnpp st body "SUPPORTED_CONFIG_ITEMS env" "[]" "[]" None]
  by (auto simp: decrypt_and_decode_config_def split: prod.splits sum.splits option.splits)

lemma decrypt_and_decode_config_replace_constructor:
  "k \<in> set (incompatible_decryptors st) \<Longrightarrow>
   decrypt_and_decode_config (replace_constructor env k c') dnpp rc body n st =
   decrypt_and_decode_config env dnpp rc body n st"
  by (simp add: decrypt_and_decode_config_def items_loop_replace_constructor
        split: prod.splits sum.splits option.splits)

lemma verify_hash_loop_marked:
  "marked_by_construction env dnpp st (snd (verify_hash_loop env dnpp rc body n st))"
proof (induction env dnpp rc body n st rule: verify_hash_loop.induct)
  case (1 env dnpp rc body n st)
  obtain r st1 where d: "decrypt_and_decode_config env dnpp rc body n st = (r, st1)"
    by (cases "decrypt_and_decode_config env dnpp rc body n st")
  have m1: "marked_by_construction env dnpp st st1"
    using decrypt_and_decode_config_marked[of env dnpp st rc body n] d by simp
  show ?case
  proof (cases r)
    case (Inr cfg)
    then show ?thesis using d m1 by (simp add: verify_hash_loop.simps[of env dnpp rc body n st])
  next
    case (Inl e)
    show ?thesis
    proof (cases "n < MIN_CONFIG_LEN_FLOOR")
      case True
      then show ?thesis
        using d m1 Inl by (simp add: verify_hash_loop.simps[of env dnpp rc body n st])
    next
      case False
      have "marked_by_construction env dnpp st1
              (snd (verify_hash_loop env dnpp rc body (n - 1) st1))"
        using "1.IH"[of r st1 e] d Inl False by simp
      with m1 show ?thesis
        using d Inl False
        by (auto simp: verify_hash_loop.simps[of env dnpp rc body n st] intro: marked_trans)
    qed
  qed
qed

lemma verify_hash_loop_replace_constructor:
  "k \<in> set (incompatible_decryptors st) \<Longrightarrow>
   verify_hash_loop (replace_constructor env k c') dnpp rc body n st =
   verify_hash_loop env dnpp rc body n st"
proof (induction env dnpp rc body n st rule: verify_hash_loop.induct)
  case (1 env dnpp rc body n st)
  obtain r st1 where d: "decrypt_and_decode_config env dnpp rc body n st = (r, st1)"
    by (cases "decrypt_and_decode_config env dnpp rc body n st")
  have d': "decrypt_and_decode_config (replace_constructor env k c') dnpp rc body n st = (r, st1)"
    using d "1.prems" by (simp add: decrypt_and_decode_config_replace_constructor)
  have "marked_by_construction env dnpp st st1"
    using decrypt_and_decode_config_marked[of env dnpp st rc body n] d by simp
  then have k1: "k \<in> set (incompatible_decryptors st1)"
    using "1.prems" by (rule marked_mem)
  show ?case
  proof (cases r)
    case (Inr cfg)
    then show ?thesis
      using d d'
      by (simp add: verify_hash_loop.simps[of env dnpp rc body n st]
            verify_hash_loop.simps[of "replace_constructor env k c'" dnpp rc body n st])
  next
    case (Inl e)
    show ?thesis
    proof (cases "n < MIN_CONFIG_LEN_FLOOR")
      case True
      then show ?thesis
        using d d' Inl
        by (simp add: verify_hash_loop.simps[of env dnpp rc body n st]
              verify_hash_loop.simps[of "replace_constructor env k c'" dnpp rc body n st])
    next
      case False
      have "verify_hash_loop (replace_constructor env k c') dnpp rc body (n - 1) st1 =
            verify_hash_loop env dnpp rc body (n - 1) st1"
        using "1.IH"[of r st1 e] d Inl False k1 by simp
      then show ?thesis
        using d d' Inl False
        by (simp add: verify_hash_loop.simps[of env dnpp rc body n st]
              verify_hash_loop.simps[of "replace_constructor env k c'" dnpp rc body n st])
    qed
  qed
qed

lemma get_config_verify_hash_method_marked:
  "marked_by_construction env dnpp st
     (snd (get_config_verify_hash_method env dnpp rc st))"
proof -
  have "marked_by_construction env dnpp st st'"
    if "verify_hash_loop env dnpp rc body MIN_CONFIG_LEN_CEILING st = (r, st')" for body r st'
    using verify_hash_loop_marked[of env dnpp st rc body MIN_CONFIG_LEN_CEILING] that by simp
  then show ?thesis
    by (auto simp: get_config_verify_hash_method_def marked_refl
             split: option.splits sum.splits prod.splits)
qed

lemma get_config_verify_hash_method_replace_constructor:
  "k \<in> set (incompatible_decryptors st) \<Longrightarrow>
   get_config_verify_hash_method (replace_constructor env k c') dnpp rc st =
   get_config_verify_hash_method env dnpp rc st"
  by (simp add: get_config_verify_hash_method_def verify_hash_loop_replace_constructor
        split: option.splits sum.splits prod.splits)

lemma cctor_for_loop_marked:
  "marked_by_construction env dnpp st (snd (cctor_for_loop env dnpp rc cands n found st))"
proof (induction cands arbitrary: st)
  case Nil
  show ?case by (simp add: marked_refl)
next
  case (Cons c cands)
  obtain method_rva method_body where c: "c = (method_rva, method_body)" by (cases c)
  obtain r st1 where d: "decrypt_and_decode_config env dnpp rc method_body n st = (r, st1)"
    by (cases "decrypt_and_decode_config env dnpp rc method_body n st")
  have m1: "marked_by_construction env dnpp st st1"
    using decrypt_and_decode_config_marked[of env dnpp st rc method_body n] d by simp
  show ?case
  proof (cases r)
    case (Inr cfg)
    then show ?thesis using c d m1 by simp
  next
    case (Inl e)
    then show ?thesis
      using c d m1 Cons.IH[of st1] by (auto intro: marked_trans)
  qed
qed

lemma cctor_for_loop_replace_constructor:
  "k \<in> set (incompatible_decryptors st) \<Longrightarrow>
   cctor_for_loop (replace_constructor env k c') dnpp rc cands n found st =
   cctor_for_loop env dnpp rc cands n found st"
proof (induction cands arbitrary: st)
  case Nil
  show ?case by simp
next
  case (Cons c cands)
  obtain method_rva method_body where c: "c = (method_rva, method_body)" by (cases c)
  obtain r st1 where d: "decrypt_and_decode_config env dnpp rc method_body n st = (r, st1)"
    by (cases "decrypt_and_decode_config env dnpp rc method_body n st")
  have d': "decrypt_and_decode_config (replace_constructor env k c') dnpp rc method_body n st
            = (r, st1)"
    using d Cons.prems by (simp add: decrypt_and_decode_config_replace_constructor)
  have "marked_by_construction env dnpp st st1"
    using decrypt_and_decode_config_marked[of env dnpp st rc method_body n] d by simp
  then have "k \<in> set (incompatible_decryptors st1)"
    using Cons.prems by (rule marked_mem)
  then have "cctor_for_loop (replace_constructor env k c') dnpp rc cands n found st1 =
             cctor_for_loop env dnpp rc cands n found st1"
    by (rule Cons.IH)
  then show ?case
    using c d d' by (simp split: sum.splits)
qed

lemma cctor_while_loop_marked:
  "marked_by_construction env dnpp st (snd (cctor_while_loop env dnpp rc cands n found st))"
proof (induction env dnpp rc cands n found st rule: cctor_while_loop.induct)
  case (1 env dnpp rc cands n found st)
  show ?case
  proof (cases "found = None \<and> MIN_CONFIG_LEN_FLOOR \<le> n")
    case False
    have "cctor_while_loop env dnpp rc cands n found st = (found, st)"
      by (subst cctor_while_loop.simps) (simp only: if_not_P[OF False])
    then show ?thesis
      by (simp add: marked_refl)
  next
    case True
    obtain found' st1 where f: "cctor_for_loop env dnpp rc cands n found st = (found', st1)"
      by (cases "cctor_for_loop env dnpp rc cands n found st")
    have m1: "marked_by_construction env dnpp st st1"
      using cctor_for_loop_marked[of env dnpp st rc cands n found] f by simp
    have eq: "cctor_while_loop env dnpp rc cands n found st =
              cctor_while_loop env dnpp rc cands (n - 1) found' st1"
      by (subst cctor_while_loop.simps) (simp only: if_P[OF True] f prod.case)
    have "marked_by_construction env dnpp st1
            (snd (cctor_while_loop env dnpp rc cands (n - 1) found' st1))"
      using "1.IH"[OF True f[symmetric]] .
    with m1 show ?thesis
      unfolding eq by (rule marked_trans)
  qed
qed

lemma cctor_while_loop_replace_constructor:
  "k \<in> set (incompatible_decryptors st) \<Longrightarrow>
   cctor_while_loop (replace_constructor env k c') dnpp rc cands n found st =
   cctor_while_loop env dnpp rc cands n found st"
proof (induction env dnpp rc cands n found st rule: cctor_while_loop.induct)
  case (1 env dnpp rc cands n found st)
  show ?case
  proof (cases "found = None \<and> MIN_CONFIG_LEN_FLOOR \<le> n")
    case False
    have "cctor_while_loop env dnpp rc cands n found st = (found, st)"
      by (subst cctor_while_loop.simps) (simp only: if_not_P[OF False])
    moreover have "cctor_while_loop (replace_constructor env k c') dnpp rc cands n found st
                   = (found, st)"
      by (subst cctor_while_loop.simps) (simp only: if_not_P[OF False])
    ultimately show ?thesis
      by simp
  next
    case True
    obtain found' st1 where f: "cctor_for_loop env dnpp rc cands n found st = (found', st1)"
      by (cases "cctor_for_loop env dnpp rc cands n found st")
    have f': "cctor_for_loop (replace_constructor env k c') dnpp rc cands n found st
              = (found', st1)"
      using f "1.prems" by (simp add: cctor_for_loop_replace_constructor)
    have "marked_by_construction env dnpp st st1"
      using cctor_for_loop_marked[of env dnpp st rc cands n found] f by simp
    then have "k \<in> set (incompatible_decryptors st1)"
      using "1.prems" by (rule marked_mem)
    then have ih: "cctor_while_loop (replace_constructor env k c') dnpp rc cands (n - 1) found' st1
               = cctor_while_loop env dnpp rc cands (n - 1) found' st1"
      using "1.IH"[OF True f[symmetric]] by simp
    have eq: "cctor_while_loop env dnpp rc cands n found st =
              cctor_while_loop env dnpp rc cands (n - 1) found' st1"
      by (subst cctor_while_loop.simps) (simp only: if_P[OF True] f prod.case)
    have eq': "cctor_while_loop (replace_constructor env k c') dnpp rc cands n found st =
               cctor_while_loop (replace_constructor env k c') dnpp rc cands (n - 1) found' st1"
      by (subst cctor_while_loop.simps) (simp only: if_P[OF True] f' prod.case)
    show ?thesis
      unfolding eq eq' by (rule ih)
  qed
qed

lemma get_config_cctor_brute_force_marked:
  "marked_by_construction env dnpp st
     (snd (get_config_cctor_brute_force env dnpp rc st))"
proof -
  have "marked_by_construction env dnpp st st'"
    if "cctor_while_loop env dnpp rc cands MIN_CONFIG_LEN_CEILING None st = (r, st')"
    for cands r st'
    using cctor_while_loop_marked[of env dnpp st rc cands MIN_CONFIG_LEN_CEILING None] that
    by simp
  then show ?thesis
    by (auto simp: get_config_cctor_brute_force_def marked_refl
             split: option.splits sum.splits prod.splits)
qed

lemma get_config_cctor_brute_force_replace_constructor:
  "k \<in> set (incompatible_decryptors st) \<Longrightarrow>
   get_config_cctor_brute_force (replace_constructor env k c') dnpp rc st =
   get_config_cctor_brute_force env dnpp rc st"
  by (simp add: get_config_cctor_brute_force_def cctor_while_loop_replace_constructor
        split: option.splits sum.splits prod.splits)

lemma get_config_marked:
  "marked_by_construction env dnpp st (snd (get_config env dnpp rc pk st))"
proof -
  obtain r1 st1 where a: "get_config_verify_hash_method env dnpp rc st = (r1, st1)"
    by (cases "get_config_verify_hash_method env dnpp rc st")
  obtain r2 st2 where b: "get_config_cctor_brute_force env dnpp rc st1 = (r2, st2)"
    by (cases "get_config_cctor_brute_force env dnpp rc st1")
  have m1: "marked_by_construction env dnpp st st1"
    using get_config_verify_hash_method_marked[of env dnpp st rc] a by simp
  have "marked_by_construction env dnpp st1 st2"
    using get_config_cctor_brute_force_marked[of env dnpp st1 rc] b by simp
  with m1 have m2: "marked_by_construction env dnpp st st2"
    by (rule marked_trans)
  show ?thesis
    using a b m1 m2 by (auto simp: get_config_def split: sum.splits prod.splits)
qed

lemma get_config_replace_constructor:
  assumes "k \<in> set (incompatible_decryptors st)"
  shows "get_config (replace_constructor env k c') dnpp rc pk st = get_config env dnpp rc pk st"
proof -
  obtain r1 st1 where a: "get_config_verify_hash_method env dnpp rc st = (r1, st1)"
    by (cases "get_config_verify_hash_method env dnpp rc st")
  have a': "get_config_verify_hash_method (replace_constructor env k c') dnpp rc st = (r1, st1)"
    using a assms by (simp add: get_config_verify_hash_method_replace_constructor)
  have "marked_by_construction env dnpp st st1"
    using get_config_verify_hash_method_marked[of env dnpp st rc] a by simp
  then have "k \<in> set (incompatible_decryptors st1)"
    using assms by (rule marked_mem)
  then have b: "get_config_cctor_brute_force (replace_constructor env k c') dnpp rc st1 =
                get_config_cctor_brute_force env dnpp rc st1"
    by (rule get_config_cctor_brute_force_replace_constructor)
  show ?thesis
    using a a' b by (simp add: get_config_def split: sum.splits prod.splits)
qed

lemma decryptor_loop_skip:
  "k \<in> set (incompatible_decryptors st) \<Longrightarrow>
   decryptor_loop env dnpp (k # rest) item_data st = decryptor_loop env dnpp rest item_data st"
  by simp

lemma decryptor_loop_append:
  "c \<notin> set (incompatible_decryptors st) \<Longrightarrow> decryptor st = None \<Longrightarrow>
   new_decryptor env c dnpp = Inl (IncompatibleDecryptorException m) \<Longrightarrow>
   decryptor_loop env dnpp (c # rest) item_data st =
     decryptor_loop env dnpp rest item_data
       (st\<lparr>incompatible_decryptors := incompatible_decryptors st @ [c]\<rparr>)"
  by simp

lemma items_loop_cons:
  "items_loop env dnpp body (item # items) dc cfm l st =
     (case items_loop env dnpp body [item] dc cfm l st of
        (Inl e, st1) \<Rightarrow> (Inl e, st1)
      | (Inr (dc1, cfm1, l1), st1) \<Rightarrow> items_loop env dnpp body items dc1 cfm1 l1 st1)"
  by (auto split: sum.splits prod.splits)

lemma items_loop_marked_midway:
  assumes "items_loop env dnpp body [item] dc cfm l st = (Inr (dc1, cfm1, l1), st1)"
    and "k \<in> set (incompatible_decryptors st1)"
  shows "items_loop env dnpp body (item # items) dc cfm l st =
         items_loop (replace_constructor env k c') dnpp body items dc1 cfm1 l1 st1"
proof -
  have "items_loop env dnpp body (item # items) dc cfm l st =
        items_loop env dnpp body items dc1 cfm1 l1 st1"
    by (simp only: items_loop_cons[of env dnpp body item items] assms(1) prod.case sum.case)
  then show ?thesis
    by (simp add: items_loop_replace_constructor[OF assms(2)])
qed

lemma cctor_for_loop_marked_midway:
  assumes "decrypt_and_decode_config env dnpp rc method_body n st = (Inl e, st1)"
    and "k \<in> set (incompatible_decryptors st1)"
  shows "cctor_for_loop env dnpp rc ((method_rva, method_body) # cands) n found st =
         cctor_for_loop (replace_constructor env k c') dnpp rc cands n found st1"
  by (simp add: assms(1) cctor_for_loop_replace_constructor[OF assms(2)])

lemma cctor_while_loop_marked_midway:
  assumes "MIN_CONFIG_LEN_FLOOR \<le> n"
    and "cctor_for_loop env dnpp rc cands n None st = (None, st1)"
    and "k \<in> set (incompatible_decryptors st1)"
  shows "cctor_while_loop env dnpp rc cands n None st =
         cctor_while_loop (replace_constructor env k c') dnpp rc cands (n - 1) None st1"
proof -
  have "cctor_while_loop env dnpp rc cands n None st =
        cctor_while_loop env dnpp rc cands (n - 1) None st1"
    by (subst cctor_while_loop.simps) (simp add: assms(1,2))
  then show ?thesis
    by (simp add: cctor_while_loop_replace_constructor[OF assms(3)])
qed

lemma verify_hash_loop_marked_midway:
  assumes "MIN_CONFIG_LEN_FLOOR \<le> n"
    and "decrypt_and_decode_config env dnpp rc body n st = (Inl e, st1)"
    and "k \<in> set (incompatible_decryptors st1)"
  shows "verify_hash_loop env dnpp rc body n st =
         verify_hash_loop (replace_constructor env k c') dnpp rc body (n - 1) st1"
proof -
  have "verify_hash_loop env dnpp rc body n st = verify_hash_loop env dnpp rc body (n - 1) st1"
    using assms(1) by (subst verify_hash_loop.simps) (simp add: assms(2))
  then show ?thesis
    by (simp add: verify_hash_loop_replace_constructor[OF assms(3)])
qed

lemma get_config_marked_midway:
  assumes "get_config_verify_hash_method env dnpp rc st = (Inl e, st1)"
    and "k \<in> set (incompatible_decryptors st1)"
  shows "get_config env dnpp rc pk st =
     (case get_config_cctor_brute_force (replace_constructor env k c') dnpp rc st1 of
        (Inr (config_start, decrypted_config), st2) \<Rightarrow>
          (Inr (if \<not> pk \<and> is_likely_obfuscated_config (KNOWN_CONFIG_FIELD_NAMES env)
                              decrypted_config
                then obfuscated_keys decrypted_config else decrypted_config), st2)
      | (Inl e2, st2) \<Rightarrow>
          (Inl (ConfigParserException (''Could not identify config: '' @ exn_str e2)), st2))"
  by (simp add: get_config_def assms(1) get_config_cctor_brute_force_replace_constructor[OF assms(2)]
        split: sum.splits prod.splits)

lemma RATConfigParser_marked:
  fixes env :: "('d, 'm) environment"
  assumes "loaded_payload env path yara_rule bytes_data = Some dnpp"
  shows "marked_by_construction env dnpp \<lparr>decryptor = None, incompatible_decryptors = []\<rparr>
           (snd (RATConfigParser env path yara_rule bytes_data rc pk))"
proof -
  let ?st = "\<lparr>decryptor = None :: 'd option, incompatible_decryptors = []\<rparr>"
  from assms have ok: "\<not> (bytes_data = None \<and> \<not> isfile env path)"
    and load: "DotNetPEPayload env path yara_rule bytes_data = Inr dnpp"
    by (auto simp: loaded_payload_def split: if_splits sum.splits)
  have "snd (RATConfigParser env path yara_rule bytes_data rc pk) =
        snd (get_config env dnpp rc pk ?st)"
    using ok load
    by (auto simp: RATConfigParser_def init_try_def Let_def split: sum.splits prod.splits)
  then show ?thesis
    by (simp add: get_config_marked)
qed

lemma decryptor_loop_marked_midway:
  assumes "k \<notin> set (incompatible_decryptors st)" and "decryptor st = None"
    and "new_decryptor env k dnpp = Inl (IncompatibleDecryptorException m)"
  shows "decryptor_loop env dnpp (k # rest) item_data st =
         decryptor_loop (replace_constructor env k c') dnpp rest item_data
           (st\<lparr>incompatible_decryptors := incompatible_decryptors st @ [k]\<rparr>)"
proof -
  have "k \<in> set (incompatible_decryptors
                  (st\<lparr>incompatible_decryptors := incompatible_decryptors st @ [k]\<rparr>))"
    by simp
  then show ?thesis
    by (simp only: decryptor_loop_append[OF assms] decryptor_loop_replace_constructor)
qed

text \<open>
  Claim C5. In the loop over the decryptor classes, a class that is in the list of
  incompatible classes is passed over before anything is constructed, and a class whose
  constructor raises \<^verbatim>\<open>IncompatibleDecryptorException\<close> is appended to the list. Through
  one batch, one decoding of a candidate region at a threshold, the whole search, and the
  whole parse (which starts from the empty list), the list only grows, and only by such
  classes. Once a class \<open>k\<close> is in the list, its constructor is never called again: from a
  state in which \<open>k\<close> is listed, replacing the constructor of \<open>k\<close> by any other function
  \<open>c'\<close> changes neither results nor states; and when \<open>k\<close> is listed after one batch, after
  the failed decoding of one candidate region, after one threshold, or after the
  VerifyHash() method, what follows in the same parse (the later batches, candidate
  regions, thresholds, and the brute force) runs as it does with the constructor replaced.
  So does the rest of the loop over the classes from the moment at which the constructor
  of \<open>k\<close> has raised and \<open>k\<close> has been appended.
\<close>

theorem incompatible_decryptor_never_constructed:
  "(\<forall>st rest item_data.
      k \<in> set (incompatible_decryptors st) \<longrightarrow>
      decryptor_loop env dnpp (k # rest) item_data st =
        decryptor_loop env dnpp rest item_data st)
   \<and> (\<forall>c st m rest item_data.
        c \<notin> set (incompatible_decryptors st) \<longrightarrow> decryptor st = None \<longrightarrow>
        new_decryptor env c dnpp = Inl (IncompatibleDecryptorException m) \<longrightarrow>
        decryptor_loop env dnpp (c # rest) item_data st =
          decryptor_loop env dnpp rest item_data
            (st\<lparr>incompatible_decryptors := incompatible_decryptors st @ [c]\<rparr>))
   \<and> (\<forall>st ks item_data.
        marked_by_construction env dnpp st (snd (decryptor_loop env dnpp ks item_data st)))
   \<and> (\<forall>st rc body n.
        marked_by_construction env dnpp st
          (snd (decrypt_and_decode_config env dnpp rc body n st)))
   \<and> (\<forall>st rc pk. marked_by_construction env dnpp st (snd (get_config env dnpp rc pk st)))
   \<and> (\<forall>path yara_rule bytes_data rc pk.
        loaded_payload env path yara_rule bytes_data = Some dnpp \<longrightarrow>
        marked_by_construction env dnpp \<lparr>decryptor = None, incompatible_decryptors = []\<rparr>
          (snd (RATConfigParser env path yara_rule bytes_data rc pk)))
   \<and> (\<forall>st. k \<in> set (incompatible_decryptors st) \<longrightarrow>
        (\<forall>ks item_data.
           decryptor_loop (replace_constructor env k c') dnpp ks item_data st =
             decryptor_loop env dnpp ks item_data st)
        \<and> (\<forall>rc body n.
             decrypt_and_decode_config (replace_constructor env k c') dnpp rc body n st =
               decrypt_and_decode_config env dnpp rc body n st)
        \<and> (\<forall>rc pk.
             get_config (replace_constructor env k c') dnpp rc pk st =
               get_config env dnpp rc pk st
             \<and> k \<in> set (incompatible_decryptors (snd (get_config env dnpp rc pk st)))))
   \<and> (\<forall>body item items dc cfm l st dc1 cfm1 l1 st1.
        items_loop env dnpp body [item] dc cfm l st = (Inr (dc1, cfm1, l1), st1) \<longrightarrow>
        k \<in> set (incompatible_decryptors st1) \<longrightarrow>
        items_loop env dnpp body (item # items) dc cfm l st =
          items_loop (replace_constructor env k c') dnpp body items dc1 cfm1 l1 st1)
   \<and> (\<forall>rc method_rva method_body cands n found st e st1.
        decrypt_and_decode_config env dnpp rc method_body n st = (Inl e, st1) \<longrightarrow>
        k \<in> set (incompatible_decryptors st1) \<longrightarrow>
        cctor_for_loop env dnpp rc ((method_rva, method_body) # cands) n found st =
          cctor_for_loop (replace_constructor env k c') dnpp rc cands n found st1)
   \<and> (\<forall>rc cands n st st1.
        MIN_CONFIG_LEN_FLOOR \<le> n \<longrightarrow>
        cctor_for_loop env dnpp rc cands n None st = (None, st1) \<longrightarrow>
        k \<in> set (incompatible_decryptors st1) \<longrightarrow>
        cctor_while_loop env dnpp rc cands n None st =
          cctor_while_loop (replace_constructor env k c') dnpp rc cands (n - 1) None st1)
   \<and> (\<forall>rc body n st e st1.
        MIN_CONFIG_LEN_FLOOR \<le> n \<longrightarrow>
        decrypt_and_decode_config env dnpp rc body n st = (Inl e, st1) \<longrightarrow>
        k \<in> set (incompatible_decryptors st1) \<longrightarrow>
        verify_hash_loop env dnpp rc body n st =
          verify_hash_loop (replace_constructor env k c') dnpp rc body (n - 1) st1)
   \<and> (\<forall>rc pk st e st1.
        get_config_verify_hash_method env dnpp rc st = (Inl e, st1) \<longrightarrow>
        k \<in> set (incompatible_decryptors st1) \<longrightarrow>
        get_config env dnpp rc pk st =
          (case get_config_cctor_brute_force (replace_constructor env k c') dnpp rc st1 of
             (Inr (config_start, decrypted_config), st2) \<Rightarrow>
               (Inr (if \<not> pk \<and> is_likely_obfuscated_config (KNOWN_CONFIG_FIELD_NAMES env)
                                   decrypted_config
                     then obfuscated_keys decrypted_config else decrypted_config), st2)
           | (Inl e2, st2) \<Rightarrow>
               (Inl (ConfigParserException
                  (''Could not identify config: '' @ exn_str e2)), st2)))
   \<and> (\<forall>st m rest item_data.
        k \<notin> set (incompatible_decryptors st) \<longrightarrow> decryptor st = None \<longrightarrow>
        new_decryptor env k dnpp = Inl (IncompatibleDecryptorException m) \<longrightarrow>
        decryptor_loop env dnpp (k # rest) item_data st =
          decryptor_loop (replace_constructor env k c') dnpp rest item_data
            (st\<lparr>incompatible_decryptors := incompatible_decryptors st @ [k]\<rparr>))"
  apply (intro conjI allI impI)
  subgoal by (rule decryptor_loop_skip)
  subgoal by (rule decryptor_loop_append)
  subgoal by (rule decryptor_loop_marked)
  subgoal by (rule decrypt_and_decode_config_marked)
  subgoal by (rule get_config_marked)
  subgoal by (rule RATConfigParser_marked)
  subgoal by (rule decryptor_loop_replace_constructor)
  subgoal by (rule decrypt_and_decode_config_replace_constructor)
  subgoal by (rule get_config_replace_constructor)
  subgoal for st rc pk
    using get_config_marked[of env dnpp st rc pk] by (rule marked_mem)
  subgoal by (rule items_loop_marked_midway)
  subgoal by (rule cctor_for_loop_marked_midway)
  subgoal by (rule cctor_while_loop_marked_midway)
  subgoal by (rule verify_hash_loop_marked_midway)
  subgoal by (rule get_config_marked_midway)
  subgoal by (rule decryptor_loop_marked_midway)
  done

theorem incompatible_decryptor_never_constructed_witness:
  "0 \<notin> set (incompatible_decryptors st0) \<and> decryptor st0 = None
   \<and> new_decryptor fx_env 0 (fx_payload fx_marker 500 []) =
       Inl (IncompatibleDecryptorException ''marker not found'')
   \<and> decryptor_loop fx_env (fx_payload fx_marker 500 []) (0 # [1, 2])
       [(''Key'', VStr ''enc128'')] st0 =
       decryptor_loop fx_env (fx_payload fx_marker 500 []) [1, 2] [(''Key'', VStr ''enc128'')]
         (st0\<lparr>incompatible_decryptors := incompatible_decryptors st0 @ [0]\<rparr>)
   \<and> decryptor_loop fx_env (fx_payload fx_marker 500 []) (0 # [1, 2])
       [(''Key'', VStr ''enc128'')] st0 =
       decryptor_loop (replace_constructor fx_env 0 (\<lambda>dnpp. Inr 2))
         (fx_payload fx_marker 500 []) [1, 2] [(''Key'', VStr ''enc128'')]
         (st0\<lparr>incompatible_decryptors := incompatible_decryptors st0 @ [0]\<rparr>)
   \<and> 0 \<in> set (incompatible_decryptors
                \<lparr>decryptor = None :: nat option, incompatible_decryptors = [0]\<rparr>)
   \<and> decryptor_loop fx_env (fx_payload fx_marker 500 []) (0 # [1, 2])
       [(''Key'', VStr ''enc128'')] \<lparr>decryptor = None, incompatible_decryptors = [0]\<rparr> =
       decryptor_loop fx_env (fx_payload fx_marker 500 []) [1, 2] [(''Key'', VStr ''enc128'')]
         \<lparr>decryptor = None, incompatible_decryptors = [0]\<rparr>
   \<and> get_config (replace_constructor fx_env 0 (\<lambda>dnpp. Inr 2)) (fx_payload fx_marker 500 [])
       False False \<lparr>decryptor = None, incompatible_decryptors = [0]\<rparr> =
       (Inr [(''Delay'', VInt 6), (''MTX'', VInt 5), (''Install'', VInt 4),
             (''Version'', VInt 3), (''Hosts'', VInt 2), (''Ports'', VInt 1),
             (''Key'', VStr ''plain''), (''derived'', VStr ''yes'')],
        \<lparr>decryptor = Some 12, incompatible_decryptors = [0]\<rparr>)
   \<and> MIN_CONFIG_LEN_FLOOR \<le> 9
   \<and> decrypt_and_decode_config fx_env (fx_payload fx_marker 500 []) False (fx_body 500) 9 st0 =
       (Inl (ConfigParserException ''Minimum threshold of config items not met: 8/9''),
        \<lparr>decryptor = Some 12, incompatible_decryptors = [0]\<rparr>)
   \<and> 0 \<in> set (incompatible_decryptors
                \<lparr>decryptor = Some (12 :: nat), incompatible_decryptors = [0]\<rparr>)
   \<and> verify_hash_loop fx_env (fx_payload fx_marker 500 []) False (fx_body 500) 9 st0 =
       verify_hash_loop (replace_constructor fx_env 0 (\<lambda>dnpp. Inr 2))
         (fx_payload fx_marker 500 []) False (fx_body 500) (9 - 1)
         \<lparr>decryptor = Some 12, incompatible_decryptors = [0]\<rparr>
   \<and> get_config_verify_hash_method fx_env (fx_payload fx_marker 600 [200, 500]) False st0 =
       (Inl (ConfigParserException ''Minimum threshold of config items not met: 3/4''),
        \<lparr>decryptor = Some 12, incompatible_decryptors = [0]\<rparr>)
   \<and> get_config_cctor_brute_force (replace_constructor fx_env 0 (\<lambda>dnpp. Inr 2))
       (fx_payload fx_marker 600 [200, 500]) False
       \<lparr>decryptor = Some 12, incompatible_decryptors = [0]\<rparr> =
       (Inr (500, [(''Delay'', VInt 6), (''MTX'', VInt 5), (''Install'', VInt 4),
                   (''Version'', VInt 3), (''Hosts'', VInt 2), (''Ports'', VInt 1),
                   (''Key'', VStr ''plain''), (''derived'', VStr ''yes'')]),
        \<lparr>decryptor = Some 12, incompatible_decryptors = [0]\<rparr>)
   \<and> get_config fx_env (fx_payload fx_marker 600 [200, 500]) False False st0 =
       (Inr [(''Delay'', VInt 6), (''MTX'', VInt 5), (''Install'', VInt 4),
             (''Version'', VInt 3), (''Hosts'', VInt 2), (''Ports'', VInt 1),
             (''Key'', VStr ''plain''), (''derived'', VStr ''yes'')],
        \<lparr>decryptor = Some 12, incompatible_decryptors = [0]\<rparr>)
   \<and> snd (get_config (replace_constructor fx_env 0 (\<lambda>dnpp. Inr 2)) (fx_payload fx_marker 500 [])
          False False st0) = \<lparr>decryptor = Some 12, incompatible_decryptors = []\<rparr>
   \<and> snd (get_config fx_env (fx_payload fx_marker 500 []) False False st0) =
       \<lparr>decryptor = Some 12, incompatible_decryptors = [0]\<rparr>"
proof -
  let ?env' = "replace_constructor fx_env 0 (\<lambda>dnpp. Inr 2)"
  let ?d5 = "fx_payload fx_marker 500 []"
  let ?d6 = "fx_payload fx_marker 600 [200, 500]"
  let ?batch = "[(''Key'', VStr ''enc128'')]"
  let ?st1 = "\<lparr>decryptor = None :: nat option, incompatible_decryptors = [0]\<rparr>"
  let ?st2 = "\<lparr>decryptor = Some (12 :: nat), incompatible_decryptors = [0]\<rparr>"
  let ?cfg = "[(''Delay'', VInt 6), (''MTX'', VInt 5), (''Install'', VInt 4),
             (''Version'', VInt 3), (''Hosts'', VInt 2), (''Ports'', VInt 1),
             (''Key'', VStr ''plain''), (''derived'', VStr ''yes'')]"
  note t5 = incompatible_decryptor_never_constructed
              [where k = 0 and env = fx_env and dnpp = ?d5 and c' = "\<lambda>dnpp. Inr 2"]
  note t6 = incompatible_decryptor_never_constructed
              [where k = 0 and env = fx_env and dnpp = ?d6 and c' = "\<lambda>dnpp. Inr 2"]
  note skip = t5[THEN conjunct1, rule_format]
  note append = t5[THEN conjunct2, THEN conjunct1, rule_format]
  note same = t5[THEN conjunct2, THEN conjunct2, THEN conjunct2, THEN conjunct2,
                 THEN conjunct2, THEN conjunct2, THEN conjunct1, rule_format]
  note thresholds = t5[THEN conjunct2, THEN conjunct2, THEN conjunct2, THEN conjunct2,
                       THEN conjunct2, THEN conjunct2, THEN conjunct2, THEN conjunct2,
                       THEN conjunct2, THEN conjunct2, THEN conjunct1, rule_format]
  note strategies = t6[THEN conjunct2, THEN conjunct2, THEN conjunct2, THEN conjunct2,
                       THEN conjunct2, THEN conjunct2, THEN conjunct2, THEN conjunct2,
                       THEN conjunct2, THEN conjunct2, THEN conjunct2, THEN conjunct1,
                       rule_format]
  note rest = t5[THEN conjunct2, THEN conjunct2, THEN conjunct2, THEN conjunct2,
                 THEN conjunct2, THEN conjunct2, THEN conjunct2, THEN conjunct2,
                 THEN conjunct2, THEN conjunct2, THEN conjunct2, THEN conjunct2,
                 rule_format]
  have a1: "0 \<notin> set (incompatible_decryptors st0)" and a2: "decryptor st0 = None"
    by (simp_all add: st0_def)
  have a3: "new_decryptor fx_env 0 ?d5 = Inl (IncompatibleDecryptorException ''marker not found'')"
    by (simp add: fx_env_def)
  have a4: "decryptor_loop fx_env ?d5 (0 # [1, 2]) ?batch st0 =
            decryptor_loop fx_env ?d5 [1, 2] ?batch
              (st0\<lparr>incompatible_decryptors := incompatible_decryptors st0 @ [0]\<rparr>)"
    using a1 a2 a3 by (rule append)
  have a5: "decryptor_loop fx_env ?d5 (0 # [1, 2]) ?batch st0 =
            decryptor_loop ?env' ?d5 [1, 2] ?batch
              (st0\<lparr>incompatible_decryptors := incompatible_decryptors st0 @ [0]\<rparr>)"
    using a1 a2 a3 by (rule rest)
  have s1: "0 \<in> set (incompatible_decryptors ?st1)"
    by simp
  have s2: "decryptor_loop fx_env ?d5 (0 # [1, 2]) ?batch ?st1 =
            decryptor_loop fx_env ?d5 [1, 2] ?batch ?st1"
    using s1 by (rule skip)
  have r0: "get_config fx_env ?d5 False False ?st1 = (Inr ?cfg, ?st2)"
    by (simp add: fx_eval)
  have r1: "get_config ?env' ?d5 False False ?st1 = (Inr ?cfg, ?st2)"
    using same[OF s1] r0 by simp
  have v1: "MIN_CONFIG_LEN_FLOOR \<le> 9"
    by (simp add: MIN_CONFIG_LEN_FLOOR_def)
  have v2: "decrypt_and_decode_config fx_env ?d5 False (fx_body 500) 9 st0 =
       (Inl (ConfigParserException ''Minimum threshold of config items not met: 8/9''), ?st2)"
    by (simp add: fx_eval)
  have v3: "0 \<in> set (incompatible_decryptors ?st2)"
    by simp
  have v4: "verify_hash_loop fx_env ?d5 False (fx_body 500) 9 st0 =
            verify_hash_loop ?env' ?d5 False (fx_body 500) (9 - 1) ?st2"
    using v1 v2 v3 by (rule thresholds)
  have g1: "get_config_verify_hash_method fx_env ?d6 False st0 =
       (Inl (ConfigParserException ''Minimum threshold of config items not met: 3/4''), ?st2)"
    by (simp add: fx_eval)
  have g2: "get_config_cctor_brute_force ?env' ?d6 False ?st2 = (Inr (500, ?cfg), ?st2)"
    by (simp add: replace_constructor_def fx_eval)
  have known: "KNOWN_CONFIG_FIELD_NAMES fx_env = [''Ports'', ''Hosts'', ''port'', ''host'']"
    by (simp add: fx_env_def)
  have obf: "\<not> is_likely_obfuscated_config [''Ports'', ''Hosts'', ''port'', ''host''] ?cfg"
    by (simp add: isascii_def)
  have g3: "get_config fx_env ?d6 False False st0 = (Inr ?cfg, ?st2)"
    using strategies[OF g1 v3, of False] by (simp only: g2 known obf prod.case sum.case simp_thms if_False)
  have c1: "snd (get_config ?env' ?d5 False False st0)
           = \<lparr>decryptor = Some 12, incompatible_decryptors = []\<rparr>"
    by (simp add: replace_constructor_def fx_eval)
  have c2: "snd (get_config fx_env ?d5 False False st0) = ?st2"
    by (simp add: fx_eval)
  show ?thesis
    by (intro conjI) (rule a1 a2 a3 a4 a5 s1 s2 r1 v1 v2 v3 v4 g1 g2 g3 c1 c2)+
qed

section \<open>The order of the remapped configuration\<close>

lemma items_loop_distinct:
  "items_loop env dnpp body items dc cfm l st = (Inr (dc', cfm', l'), st') \<Longrightarrow>
   distinct (map fst dc) \<Longrightarrow> distinct (map fst dc')"
proof (induction items arbitrary: dc cfm l st)
  case Nil
  then show ?case by simp
next
  case (Cons item items)
  from Cons.prems(1) obtain raw cfm1 item_data where
    tr: "parse_from item body = Inr raw" "translate_fields dnpp raw cfm [] = Inr (cfm1, item_data)"
    by (auto split: sum.splits prod.splits)
  show ?case
  proof (cases "length item_data > 0")
    case False
    then show ?thesis
      using Cons.prems tr Cons.IH[of dc cfm1 "Some item_data" st] by simp
  next
    case True
    from Cons.prems(1) tr True obtain item_data' st1 where
      pp: "post_process env dnpp (item_type item) item_data st = (Inr item_data', st1)"
      and rest: "items_loop env dnpp body items (dict_update dc item_data') cfm1
                   (Some item_data') st1 = (Inr (dc', cfm', l'), st')"
      by (auto split: sum.splits prod.splits)
    have "distinct (map fst (dict_update dc item_data'))"
      using Cons.prems(2) by (rule dict_update_distinct)
    with rest show ?thesis
      by (rule Cons.IH)
  qed
qed

lemma canonical_entries_ids:
  "canonical_entries env ks cfm dc = Inr entries \<Longrightarrow> map fst entries = ks"
  by (induction ks arbitrary: entries) (auto split: option.splits sum.splits prod.splits)

lemma remap_loop_canonical:
  "canonical_entries env ks cfm dc = Inr entries \<Longrightarrow>
   remap_loop env ks cfm dc sdc nf =
     Inr (dict_update sdc (canonical_items entries), nf @ renamed_fields entries)"
proof (induction ks arbitrary: entries sdc nf)
  case Nil
  then show ?case by (simp add: canonical_items_def renamed_fields_def)
next
  case (Cons k ks)
  from Cons.prems obtain key_name v key_normalized v' rest where
    look: "dict_get cfm k = Some key_name" "dict_get dc key_name = Some v"
      "check_key_n_value env key_name v = Inr (key_normalized, v')"
    and rest: "canonical_entries env ks cfm dc = Inr rest"
    and entries: "entries = (k, key_name, key_normalized, v') # rest"
    by (auto split: option.splits sum.splits prod.splits)
  show ?case
    using look Cons.IH[OF rest]
    by (simp add: entries canonical_items_def renamed_fields_def)
qed

lemma remap_canonical:
  assumes "canonical_entries env (sort (dict_keys cfm)) cfm dc = Inr entries"
    and "distinct (map fst dc)"
  shows "remap env cfm dc =
     Inr (dict_update [] (canonical_items entries)
          @ filter (\<lambda>(k, v). k \<notin> set (dict_keys (dict_update [] (canonical_items entries)))
                            \<and> k \<notin> set (renamed_fields entries)) dc)"
proof -
  let ?sdc = "dict_update [] (canonical_items entries)"
  let ?rest = "filter (\<lambda>(k, v). k \<notin> set (dict_keys ?sdc) \<and> k \<notin> set (renamed_fields entries)) dc"
  have loop: "remap_loop env (sort (dict_keys cfm)) cfm dc [] [] =
              Inr (?sdc, renamed_fields entries)"
    using remap_loop_canonical[OF assms(1), of "[]" "[]"] by simp
  have "distinct (map fst ?rest)"
    using assms(2) by (rule distinct_map_filter)
  moreover have "set (map fst ?rest) \<inter> set (map fst ?sdc) = {}"
    by (force simp: dict_keys_def)
  ultimately have "dict_update ?sdc ?rest = ?sdc @ ?rest"
    by (rule dict_update_new)
  then show ?thesis
    by (simp add: remap_def loop)
qed

text \<open>
  Claim C8. Let the loop over the item schemas end without an exception and the threshold
  check pass, and let \<open>entries\<close> be the canonical pass over the field RVAs in ascending
  order. With remapping requested, the returned mapping is the dictionary built by
  assigning the canonical names their canonical values in that order (the list of the
  canonical items itself when no two of them have the same name), followed by the entries
  of the decoded mapping, in its order and unchanged, whose key is neither a key of that
  dictionary nor the original name of a renamed field.
\<close>

theorem remapped_config_order:
  "items_loop env dnpp body (SUPPORTED_CONFIG_ITEMS env) [] [] None st =
     (Inr (decoded_config, cfm, last_item_data), st') \<longrightarrow>
   check_min_config_len decoded_config last_item_data n = None \<longrightarrow>
   canonical_entries env (sort (dict_keys cfm)) cfm decoded_config = Inr entries \<longrightarrow>
     map fst entries = sort (dict_keys cfm)
     \<and> sorted (map fst entries)
     \<and> decrypt_and_decode_config env dnpp True body n st =
         (Inr (dict_update [] (canonical_items entries)
               @ filter (\<lambda>(k, v). k \<notin> set (dict_keys (dict_update [] (canonical_items entries)))
                                 \<and> k \<notin> set (renamed_fields entries))
                   decoded_config),
          st')
     \<and> (distinct (map fst (canonical_items entries)) \<longrightarrow>
          dict_update [] (canonical_items entries) = canonical_items entries)"
proof (intro impI)
  assume items: "items_loop env dnpp body (SUPPORTED_CONFIG_ITEMS env) [] [] None st =
       (Inr (decoded_config, cfm, last_item_data), st')"
    and ok: "check_min_config_len decoded_config last_item_data n = None"
    and entries: "canonical_entries env (sort (dict_keys cfm)) cfm decoded_config = Inr entries"
  have ids: "map fst entries = sort (dict_keys cfm)"
    using entries by (rule canonical_entries_ids)
  have "distinct (map fst decoded_config)"
    using items by (rule items_loop_distinct) simp
  with entries have "remap env cfm decoded_config =
     Inr (dict_update [] (canonical_items entries)
          @ filter (\<lambda>(k, v). k \<notin> set (dict_keys (dict_update [] (canonical_items entries)))
                            \<and> k \<notin> set (renamed_fields entries)) decoded_config)"
    by (rule remap_canonical)
  then have res: "decrypt_and_decode_config env dnpp True body n st =
         (Inr (dict_update [] (canonical_items entries)
               @ filter (\<lambda>(k, v). k \<notin> set (dict_keys (dict_update [] (canonical_items entries)))
                                 \<and> k \<notin> set (renamed_fields entries))
                   decoded_config),
          st')"
    using items ok by (simp add: decrypt_and_decode_config_def)
  have plain: "dict_update [] (canonical_items entries) = canonical_items entries"
    if "distinct (map fst (canonical_items entries))"
    using dict_update_new[OF that, of "[]"] by simp
  show "map fst entries = sort (dict_keys cfm)
     \<and> sorted (map fst entries)
     \<and> decrypt_and_decode_config env dnpp True body n st =
         (Inr (dict_update [] (canonical_items entries)
               @ filter (\<lambda>(k, v). k \<notin> set (dict_keys (dict_update [] (canonical_items entries)))
                                 \<and> k \<notin> set (renamed_fields entries))
                   decoded_config),
          st')
     \<and> (distinct (map fst (canonical_items entries)) \<longrightarrow>
          dict_update [] (canonical_items entries) = canonical_items entries)"
    using ids res plain by simp
qed
theorem remapped_config_order_witness:
  "items_loop fx_env (fx_payload [] 100 []) [128, 2, 64, 1] (SUPPORTED_CONFIG_ITEMS fx_env)
       [] [] None st0 =
     (Inr ([(''Hosts'', VInt 2), (''Ports'', VInt 1), (''ServerSignature'', VStr ''dead''),
            (''Key'', VStr ''plain''), (''derived'', VStr ''yes'')],
           [(2, ''Hosts''), (1, ''Ports''), (64, ''ServerSignature''), (128, ''Key'')],
           Some [(''Key'', VStr ''plain''), (''derived'', VStr ''yes'')]),
      \<lparr>decryptor = Some (12 :: nat), incompatible_decryptors = [0]\<rparr>)
   \<and> check_min_config_len
       [(''Hosts'', VInt 2), (''Ports'', VInt 1), (''ServerSignature'', VStr ''dead''),
        (''Key'', VStr ''plain''), (''derived'', VStr ''yes'')]
       (Some [(''Key'', VStr ''plain''), (''derived'', VStr ''yes'')]) 4 = None
   \<and> canonical_entries fx_env
       (sort (dict_keys [(2, ''Hosts''), (1, ''Ports''), (64, ''ServerSignature''), (128, ''Key'')]))
       [(2, ''Hosts''), (1, ''Ports''), (64, ''ServerSignature''), (128, ''Key'')]
       [(''Hosts'', VInt 2), (''Ports'', VInt 1), (''ServerSignature'', VStr ''dead''),
        (''Key'', VStr ''plain''), (''derived'', VStr ''yes'')] =
       Inr [(1, ''Ports'', ''port'', VInt 1), (2, ''Hosts'', ''host'', VInt 2),
            (64, ''ServerSignature'', ''ServerSignature'', VStr ''dead''),
            (128, ''Key'', ''Key'', VStr ''plain'')]
   \<and> decrypt_and_decode_config fx_env (fx_payload [] 100 []) True [128, 2, 64, 1] 4 st0 =
       (Inr [(''port'', VInt 1), (''host'', VInt 2), (''ServerSignature'', VStr ''dead''),
             (''Key'', VStr ''plain''), (''derived'', VStr ''yes'')],
        \<lparr>decryptor = Some (12 :: nat), incompatible_decryptors = [0]\<rparr>)"
proof -
  let ?dnpp = "fx_payload [] 100 []"
  let ?dc = "[(''Hosts'', VInt 2), (''Ports'', VInt 1), (''ServerSignature'', VStr ''dead''),
              (''Key'', VStr ''plain''), (''derived'', VStr ''yes'')]"
  let ?cfm = "[(2 :: int, ''Hosts''), (1, ''Ports''), (64, ''ServerSignature''), (128, ''Key'')]"
  let ?last = "Some [(''Key'', VStr ''plain''), (''derived'', VStr ''yes'')]"
  let ?st = "\<lparr>decryptor = Some (12 :: nat), incompatible_decryptors = [0]\<rparr>"
  let ?entries = "[(1 :: int, ''Ports'', ''port'', VInt 1), (2, ''Hosts'', ''host'', VInt 2),
            (64, ''ServerSignature'', ''ServerSignature'', VStr ''dead''),
            (128, ''Key'', ''Key'', VStr ''plain'')]"
  have i: "items_loop fx_env ?dnpp [128, 2, 64, 1] (SUPPORTED_CONFIG_ITEMS fx_env) [] [] None st0
           = (Inr (?dc, ?cfm, ?last), ?st)"
    by (simp add: fx_eval)
  have c: "check_min_config_len ?dc ?last 4 = None"
    by (simp add: check_min_config_len_def)
  have e: "canonical_entries fx_env (sort (dict_keys ?cfm)) ?cfm ?dc = Inr ?entries"
    by (simp add: fx_env_def dict_keys_def dict_get_def)
  have r: "decrypt_and_decode_config fx_env ?dnpp True [128, 2, 64, 1] 4 st0 =
       (Inr [(''port'', VInt 1), (''host'', VInt 2), (''ServerSignature'', VStr ''dead''),
             (''Key'', VStr ''plain''), (''derived'', VStr ''yes'')], ?st)"
    using remapped_config_order[of fx_env ?dnpp "[128, 2, 64, 1]" st0 ?dc ?cfm ?last ?st 4 ?entries]
      i c e
    by (simp add: canonical_items_def renamed_fields_def dict_keys_def)
  show ?thesis
    by (intro conjI) (rule i c e r)+
qed

end
